theory Spec2Isabelle
  imports Complex_Main "HOL-Library.Word" "HOL-Library.AList"
begin

unbundle bit_operations_syntax

section \<open>Wire types of the gateway (package provider)\<close>

text \<open>
  Go's \<^verbatim>\<open>int\<close> is a 64-bit machine integer on the supported platforms; token counts
  are kept as 64-bit words so that \<open>+\<close> wraps as it does in the program. A
  \<^verbatim>\<open>float64\<close> is kept as its 64-bit IEEE pattern. A \<^verbatim>\<open>[]byte\<close> and a Go
  \<^verbatim>\<open>string\<close> are both byte sequences, here \<open>char list\<close> (an Isabelle \<open>char\<close> is a
  byte), so \<^verbatim>\<open>string(bodyBytes)\<close> is the identity. A pointer field (\<^verbatim>\<open>*float64\<close>, \<^verbatim>\<open>*int\<close>, \<^verbatim>\<open>*bool\<close>) is an option.
\<close>

type_synonym go_int = "64 word"
type_synonym float64 = "64 word"
type_synonym bytes = string

record Message =
  msg_Role :: string
  msg_Content :: string
  msg_Name :: string

text \<open>
  \<^verbatim>\<open>Metadata map[string]string\<close> is held as its entries listed in increasing key
  order, which is the order in which \<^verbatim>\<open>encoding/json\<close> writes a map.
\<close>

record GatewayExtensions =
  gx_Cache :: "bool option"
  gx_Timeout :: "go_int option"
  gx_Provider :: string
  gx_Metadata :: "(string \<times> string) list"

text \<open>
  \<^verbatim>\<open>Messages\<close> has no \<^verbatim>\<open>omitempty\<close> tag, so a nil slice (written \<^verbatim>\<open>null\<close>) and an
  empty one (written \<^verbatim>\<open>[]\<close>) are told apart: \<open>None\<close> is the nil slice.
\<close>

record ChatCompletionRequest =
  req_Model :: string
  req_Messages :: "Message list option"
  req_Temperature :: "float64 option"
  req_TopP :: "float64 option"
  req_N :: "go_int option"
  req_Stream :: bool
  req_Stop :: "string list"
  req_MaxTokens :: "go_int option"
  req_PresencePenalty :: "float64 option"
  req_FrequencyPenalty :: "float64 option"
  req_User :: string
  req_XGateway :: "GatewayExtensions option"

record Usage =
  PromptTokens :: go_int
  CompletionTokens :: go_int
  TotalTokens :: go_int

record Choice =
  ch_Index :: go_int
  ch_Message :: Message
  ch_FinishReason :: string

record ChatCompletionResponse =
  resp_ID :: string
  resp_Object :: string
  resp_Created :: int
  resp_Model :: string
  resp_Choices :: "Choice list"
  resp_Usage :: Usage
  resp_SystemFingerprint :: string

record ProviderError =
  pe_Provider :: string
  pe_StatusCode :: int
  pe_Message :: string
  pe_Type :: string

record ProviderMetrics =
  pm_Provider :: string
  pm_Model :: string
  pm_PromptTokens :: go_int
  pm_CompletionTokens :: go_int
  pm_TotalTokens :: go_int
  pm_LatencyMs :: int
  pm_Cost :: real
  pm_Cached :: bool
  pm_Success :: bool
  pm_Timestamp :: int

subsection \<open>Errors as values\<close>

text \<open>
  Every \<^verbatim>\<open>error\<close> the provider and registry code builds is a constructor here:
  \<open>TransportError\<close> is what \<^verbatim>\<open>http.Client.Do\<close> returns, \<open>StatusError\<close> is
  \<^verbatim>\<open>fmt.Errorf("request failed with status %d")\<close>, \<open>MaxRetriesExceeded\<close> wraps the
  last error of the retry loop (\<open>None\<close> when the loop never ran), \<open>ProviderErr\<close> is
  \<^verbatim>\<open>*ProviderError\<close>.
\<close>

datatype go_error =
    TransportError string
  | StatusError int
  | MaxRetriesExceeded "go_error option"
  | MarshalFailed
  | CreateRequestFailed
  | RequestFailed go_error
  | DecodeFailed
  | ProviderErr ProviderError
  | HealthCheckFailed int
  | NoProviderFound string

subsection \<open>Decimal printing (\<^verbatim>\<open>%d\<close>)\<close>

definition digit_char :: "nat \<Rightarrow> char" where
  "digit_char d = ''0123456789'' ! d"

fun show_nat :: "nat \<Rightarrow> string" where
  "show_nat n = (if n < 10 then [digit_char n] else show_nat (n div 10) @ [digit_char (n mod 10)])"

definition show_int :: "int \<Rightarrow> string" where
  "show_int i = (if i < 0 then CHR ''-'' # show_nat (nat (- i)) else show_nat (nat i))"

fun error_string :: "go_error \<Rightarrow> string" where
  "error_string (TransportError s) = s"
| "error_string (StatusError st) = ''request failed with status '' @ show_int st"
| "error_string (MaxRetriesExceeded None) = ''max retries exceeded: %!w(<nil>)''"
| "error_string (MaxRetriesExceeded (Some e)) = ''max retries exceeded: '' @ error_string e"
| "error_string MarshalFailed = ''failed to marshal request: json: unsupported value''"
| "error_string CreateRequestFailed = ''failed to create request''"
| "error_string (RequestFailed e) = ''request failed: '' @ error_string e"
| "error_string DecodeFailed = ''failed to decode response''"
| "error_string (ProviderErr pe) = pe_Message pe"
| "error_string (HealthCheckFailed st) = ''health check failed with status '' @ show_int st"
| "error_string (NoProviderFound m) = ''no provider found for model: '' @ m"

section \<open>JSON values and the request encodings\<close>

text \<open>
  \<^verbatim>\<open>json.Marshal\<close> is library code; what it writes for a struct is fixed by the struct's
  field order and tags, which are in the source. The encoding is modelled up to the
  value tree: an object is its members in the order written. A \<^verbatim>\<open>float64\<close> that is
  NaN or infinite makes \<^verbatim>\<open>json.Marshal\<close> fail (exponent bits all set).
\<close>

datatype json =
    JNull
  | JBool bool
  | JInt int
  | JFloat float64
  | JString string
  | JArray "json list"
  | JObject "(string \<times> json) list"

definition float64_finite :: "float64 \<Rightarrow> bool" where
  "float64_finite w = (take_bit 11 (drop_bit 52 w) \<noteq> (2047 :: 64 word))"

text \<open>Members contributed by one struct field: \<open>None\<close> when encoding fails.\<close>

definition always_string :: "string \<Rightarrow> string \<Rightarrow> (string \<times> json) list option" where
  "always_string k s = Some [(k, JString s)]"

definition omitempty_string :: "string \<Rightarrow> string \<Rightarrow> (string \<times> json) list option" where
  "omitempty_string k s = Some (if s = [] then [] else [(k, JString s)])"

definition omitempty_bool :: "string \<Rightarrow> bool \<Rightarrow> (string \<times> json) list option" where
  "omitempty_bool k b = Some (if b then [(k, JBool True)] else [])"

definition omitempty_float_ptr :: "string \<Rightarrow> float64 option \<Rightarrow> (string \<times> json) list option" where
  "omitempty_float_ptr k p =
     (case p of None \<Rightarrow> Some []
      | Some w \<Rightarrow> if float64_finite w then Some [(k, JFloat w)] else None)"

definition omitempty_int_ptr :: "string \<Rightarrow> go_int option \<Rightarrow> (string \<times> json) list option" where
  "omitempty_int_ptr k p = Some (case p of None \<Rightarrow> [] | Some w \<Rightarrow> [(k, JInt (sint w))])"

definition omitempty_bool_ptr :: "string \<Rightarrow> bool option \<Rightarrow> (string \<times> json) list option" where
  "omitempty_bool_ptr k p = Some (case p of None \<Rightarrow> [] | Some b \<Rightarrow> [(k, JBool b)])"

definition omitempty_strings :: "string \<Rightarrow> string list \<Rightarrow> (string \<times> json) list option" where
  "omitempty_strings k xs = Some (if xs = [] then [] else [(k, JArray (map JString xs))])"

definition omitempty_string_map :: "string \<Rightarrow> (string \<times> string) list \<Rightarrow> (string \<times> json) list option" where
  "omitempty_string_map k m =
     Some (if m = [] then [] else [(k, JObject (map (\<lambda>(a, b). (a, JString b)) m))])"

definition struct_object :: "(string \<times> json) list option list \<Rightarrow> json option" where
  "struct_object members = map_option (\<lambda>ms. JObject (concat ms)) (those members)"

definition marshal_Message :: "Message \<Rightarrow> json" where
  "marshal_Message m =
     JObject ([(''role'', JString (msg_Role m)), (''content'', JString (msg_Content m))]
              @ (if msg_Name m = [] then [] else [(''name'', JString (msg_Name m))]))"

definition marshal_Messages :: "Message list option \<Rightarrow> json" where
  "marshal_Messages ms = (case ms of None \<Rightarrow> JNull | Some xs \<Rightarrow> JArray (map marshal_Message xs))"

definition marshal_GatewayExtensions :: "GatewayExtensions \<Rightarrow> json option" where
  "marshal_GatewayExtensions g =
     struct_object
       [omitempty_bool_ptr ''cache'' (gx_Cache g),
        omitempty_int_ptr ''timeout'' (gx_Timeout g),
        omitempty_string ''provider'' (gx_Provider g),
        omitempty_string_map ''metadata'' (gx_Metadata g)]"

definition omitempty_gateway :: "string \<Rightarrow> GatewayExtensions option \<Rightarrow> (string \<times> json) list option" where
  "omitempty_gateway k p =
     (case p of None \<Rightarrow> Some []
      | Some g \<Rightarrow> map_option (\<lambda>j. [(k, j)]) (marshal_GatewayExtensions g))"

definition marshal_ChatCompletionRequest :: "ChatCompletionRequest \<Rightarrow> json option" where
  "marshal_ChatCompletionRequest r =
     struct_object
       [always_string ''model'' (req_Model r),
        Some [(''messages'', marshal_Messages (req_Messages r))],
        omitempty_float_ptr ''temperature'' (req_Temperature r),
        omitempty_float_ptr ''top_p'' (req_TopP r),
        omitempty_int_ptr ''n'' (req_N r),
        omitempty_bool ''stream'' (req_Stream r),
        omitempty_strings ''stop'' (req_Stop r),
        omitempty_int_ptr ''max_tokens'' (req_MaxTokens r),
        omitempty_float_ptr ''presence_penalty'' (req_PresencePenalty r),
        omitempty_float_ptr ''frequency_penalty'' (req_FrequencyPenalty r),
        omitempty_string ''user'' (req_User r),
        omitempty_gateway ''x-gateway'' (req_XGateway r)]"

text \<open>The member names of an encoded body (none when encoding failed).\<close>

fun body_keys :: "json option \<Rightarrow> string list" where
  "body_keys (Some (JObject ms)) = map fst ms"
| "body_keys _ = []"

section \<open>Provider clients\<close>

subsection \<open>The network and the decoders\<close>

text \<open>
  \<open>upstream n\<close> is what the \<open>n\<close>-th call of \<^verbatim>\<open>http.Client.Do\<close> made by one operation
  returns: a transport error, or a response with its status and body. \<open>url_valid\<close> says
  whether \<^verbatim>\<open>http.NewRequestWithContext\<close> accepts a URL. The two decoders stand for
  \<^verbatim>\<open>json.NewDecoder(resp.Body).Decode\<close> at the two response types (\<open>None\<close> when
  decoding fails); \<open>unix_now\<close> is \<^verbatim>\<open>time.Now().Unix()\<close>.
\<close>

datatype http_result = DoError string | DoResponse int bytes

record anthropicMessage =
  am_Role :: string
  am_Content :: string

record anthropicRequest =
  ar_Model :: string
  ar_Messages :: "anthropicMessage list"
  ar_MaxTokens :: go_int
  ar_Temperature :: "float64 option"
  ar_TopP :: "float64 option"
  ar_Stream :: bool
  ar_System :: string

record anthropicContent =
  ac_Type :: string
  ac_Text :: string

record anthropicUsage =
  InputTokens :: go_int
  OutputTokens :: go_int

record anthropicResponse =
  an_ID :: string
  an_Type :: string
  an_Role :: string
  an_Content :: "anthropicContent list"
  an_Model :: string
  an_StopReason :: string
  an_StopSequence :: "string option"
  an_Usage :: anthropicUsage

record env =
  upstream :: "nat \<Rightarrow> http_result"
  url_valid :: "string \<Rightarrow> bool"
  decodeOpenAI :: "bytes \<Rightarrow> ChatCompletionResponse option"
  decodeAnthropic :: "bytes \<Rightarrow> anthropicResponse option"
  unix_now :: int

subsection \<open>The retry loop (\<^verbatim>\<open>doWithRetry\<close>)\<close>

text \<open>
  \<^verbatim>\<open>OpenAIProvider.doWithRetry\<close> and \<^verbatim>\<open>AnthropicProvider.doWithRetry\<close> have the same
  body; both are the function below at the provider's \<^verbatim>\<open>maxRetries\<close>. The result
  carries, besides what the Go function returns, the number of calls of
  \<^verbatim>\<open>client.Do\<close> made and the seconds spent in \<^verbatim>\<open>time.Sleep\<close>. The loop counter
  stays below \<^verbatim>\<open>maxRetries\<close>, so it never overflows and is an \<open>int\<close>.
\<close>

record retry_result =
  rr_result :: "go_error + (int \<times> bytes)"
  rr_attempts :: nat
  rr_slept :: nat

function retry_loop :: "(nat \<Rightarrow> http_result) \<Rightarrow> int \<Rightarrow> int \<Rightarrow> go_error option \<Rightarrow> nat \<Rightarrow> retry_result" where
  "retry_loop up maxRetries attempt lastErr slept =
     (if attempt < maxRetries then
        (case up (nat attempt) of
           DoError e \<Rightarrow>
             retry_loop up maxRetries (attempt + 1) (Some (TransportError e)) (slept + nat (attempt + 1))
         | DoResponse st body \<Rightarrow>
             if st = 429 \<or> st \<ge> 500
             then retry_loop up maxRetries (attempt + 1) (Some (StatusError st)) (slept + nat (attempt + 1))
             else \<lparr>rr_result = Inr (st, body), rr_attempts = nat attempt + 1, rr_slept = slept\<rparr>)
      else \<lparr>rr_result = Inl (MaxRetriesExceeded lastErr), rr_attempts = nat attempt, rr_slept = slept\<rparr>)"
  by pat_completeness auto
termination
  by (relation "measure (\<lambda>(up, maxRetries, attempt, lastErr, slept). nat (maxRetries - attempt))") auto

definition doWithRetry :: "int \<Rightarrow> (nat \<Rightarrow> http_result) \<Rightarrow> retry_result" where
  "doWithRetry p_maxRetries up =
     (let maxRetries = (if p_maxRetries = 0 then 3 else p_maxRetries)
      in retry_loop up maxRetries 0 None 0)"

text \<open>What a call of a provider returns, with the body it sent and the retry counters.\<close>

record call_result =
  cr_result :: "go_error + ChatCompletionResponse"
  cr_sent :: "json option"
  cr_attempts :: nat
  cr_slept :: nat

definition call_failed :: "go_error \<Rightarrow> call_result" where
  "call_failed e = \<lparr>cr_result = Inl e, cr_sent = None, cr_attempts = 0, cr_slept = 0\<rparr>"

subsection \<open>The OpenAI-shaped client\<close>

record OpenAIConfig =
  oc_Name :: string
  oc_APIKey :: string
  oc_BaseURL :: string
  oc_Models :: "string list"
  oc_Timeout :: int
  oc_MaxRetries :: int

record OpenAIProvider =
  oa_name :: string
  oa_apiKey :: string
  oa_baseURL :: string
  oa_models :: "string list"
  oa_timeout :: int
  oa_maxRetries :: int

definition NewOpenAIProvider :: "OpenAIConfig \<Rightarrow> OpenAIProvider" where
  "NewOpenAIProvider cfg =
     \<lparr>oa_name = oc_Name cfg,
      oa_apiKey = oc_APIKey cfg,
      oa_baseURL = (if oc_BaseURL cfg = [] then ''https://api.openai.com/v1'' else oc_BaseURL cfg),
      oa_models = (if length (oc_Models cfg) = 0
                   then [''gpt-4'', ''gpt-4-turbo'', ''gpt-4o'', ''gpt-4o-mini'', ''gpt-3.5-turbo'']
                   else oc_Models cfg),
      oa_timeout = (if oc_Timeout cfg = 0 then 60 * 1000000000 else oc_Timeout cfg),
      oa_maxRetries = oc_MaxRetries cfg\<rparr>"

definition OpenAI_SupportsModel :: "OpenAIProvider \<Rightarrow> string \<Rightarrow> bool" where
  "OpenAI_SupportsModel p model = (model \<in> set (oa_models p))"

definition OpenAI_request_body :: "ChatCompletionRequest \<Rightarrow> json option" where
  "OpenAI_request_body req =
     (let cleanReq = req\<lparr>req_XGateway := None\<rparr> in marshal_ChatCompletionRequest cleanReq)"

definition OpenAI_stream_body :: "ChatCompletionRequest \<Rightarrow> json option" where
  "OpenAI_stream_body req =
     (let streamReq = req\<lparr>req_Stream := True, req_XGateway := None\<rparr>
      in marshal_ChatCompletionRequest streamReq)"

definition OpenAI_ChatCompletion :: "env \<Rightarrow> OpenAIProvider \<Rightarrow> ChatCompletionRequest \<Rightarrow> call_result" where
  "OpenAI_ChatCompletion e p req =
     (case OpenAI_request_body req of
        None \<Rightarrow> call_failed MarshalFailed
      | Some body \<Rightarrow>
          if \<not> url_valid e (oa_baseURL p @ ''/chat/completions'') then call_failed CreateRequestFailed
          else
            let rr = doWithRetry (oa_maxRetries p) (upstream e) in
            \<lparr>cr_result =
               (case rr_result rr of
                  Inl err \<Rightarrow> Inl err
                | Inr (st, bodyBytes) \<Rightarrow>
                    if st \<noteq> 200
                    then Inl (ProviderErr \<lparr>pe_Provider = oa_name p, pe_StatusCode = st,
                                           pe_Message = bodyBytes, pe_Type = ''api_error''\<rparr>)
                    else (case decodeOpenAI e bodyBytes of
                            None \<Rightarrow> Inl DecodeFailed
                          | Some result \<Rightarrow> Inr result)),
             cr_sent = Some body,
             cr_attempts = rr_attempts rr,
             cr_slept = rr_slept rr\<rparr>)"

text \<open>The streaming call makes one request, with no retry; it returns the body stream.\<close>

record stream_result =
  sr_result :: "go_error + bytes"
  sr_sent :: "json option"
  sr_attempts :: nat

definition stream_failed :: "go_error \<Rightarrow> stream_result" where
  "stream_failed e = \<lparr>sr_result = Inl e, sr_sent = None, sr_attempts = 0\<rparr>"

definition OpenAI_ChatCompletionStream :: "env \<Rightarrow> OpenAIProvider \<Rightarrow> ChatCompletionRequest \<Rightarrow> stream_result" where
  "OpenAI_ChatCompletionStream e p req =
     (case OpenAI_stream_body req of
        None \<Rightarrow> stream_failed MarshalFailed
      | Some body \<Rightarrow>
          if \<not> url_valid e (oa_baseURL p @ ''/chat/completions'') then stream_failed CreateRequestFailed
          else
            \<lparr>sr_result =
               (case upstream e 0 of
                  DoError err \<Rightarrow> Inl (RequestFailed (TransportError err))
                | DoResponse st bodyBytes \<Rightarrow>
                    if st \<noteq> 200
                    then Inl (ProviderErr \<lparr>pe_Provider = oa_name p, pe_StatusCode = st,
                                           pe_Message = bodyBytes, pe_Type = ''api_error''\<rparr>)
                    else Inr bodyBytes),
             sr_sent = Some body,
             sr_attempts = 1\<rparr>)"

text \<open>
  \<^verbatim>\<open>HealthCheck\<close> has a pointer receiver; the provider is returned with the error so
  that what the method does to it is part of the result.
\<close>

definition OpenAI_HealthCheck :: "env \<Rightarrow> OpenAIProvider \<Rightarrow> OpenAIProvider \<times> go_error option" where
  "OpenAI_HealthCheck e p =
     (if \<not> url_valid e (oa_baseURL p @ ''/models'') then (p, Some CreateRequestFailed)
      else (case upstream e 0 of
              DoError err \<Rightarrow> (p, Some (TransportError err))
            | DoResponse st bodyBytes \<Rightarrow>
                if st \<noteq> 200 then (p, Some (HealthCheckFailed st)) else (p, None)))"

subsection \<open>The Anthropic-shaped client\<close>

record AnthropicConfig =
  acf_Name :: string
  acf_APIKey :: string
  acf_BaseURL :: string
  acf_Models :: "string list"
  acf_Timeout :: int
  acf_MaxRetries :: int

record AnthropicProvider =
  an_name :: string
  an_apiKey :: string
  an_baseURL :: string
  an_models :: "string list"
  an_timeout :: int
  an_maxRetries :: int

definition NewAnthropicProvider :: "AnthropicConfig \<Rightarrow> AnthropicProvider" where
  "NewAnthropicProvider cfg =
     \<lparr>an_name = acf_Name cfg,
      an_apiKey = acf_APIKey cfg,
      an_baseURL = (if acf_BaseURL cfg = [] then ''https://api.anthropic.com/v1'' else acf_BaseURL cfg),
      an_models = (if length (acf_Models cfg) = 0
                   then [''claude-3-opus-20240229'', ''claude-3-sonnet-20240229'',
                         ''claude-3-haiku-20240307'', ''claude-3-5-sonnet-20241022'']
                   else acf_Models cfg),
      an_timeout = (if acf_Timeout cfg = 0 then 60 * 1000000000 else acf_Timeout cfg),
      an_maxRetries = acf_MaxRetries cfg\<rparr>"

definition shortNames :: "string list" where
  "shortNames = [''claude-3-opus'', ''claude-3-sonnet'', ''claude-3-haiku'', ''claude-3-5-sonnet'']"

definition Anthropic_SupportsModel :: "AnthropicProvider \<Rightarrow> string \<Rightarrow> bool" where
  "Anthropic_SupportsModel p model = (model \<in> set (an_models p) \<or> model \<in> set shortNames)"

definition modelMap :: "(string \<times> string) list" where
  "modelMap =
     [(''claude-3-opus'', ''claude-3-opus-20240229''),
      (''claude-3-sonnet'', ''claude-3-sonnet-20240229''),
      (''claude-3-haiku'', ''claude-3-haiku-20240307''),
      (''claude-3-5-sonnet'', ''claude-3-5-sonnet-20241022'')]"

definition mapModel :: "string \<Rightarrow> string" where
  "mapModel model = (case map_of modelMap model of Some mapped \<Rightarrow> mapped | None \<Rightarrow> model)"

text \<open>
  The loop of \<^verbatim>\<open>convertRequest\<close> over \<^verbatim>\<open>req.Messages\<close>, with its two variables
  \<^verbatim>\<open>systemPrompt\<close> and \<^verbatim>\<open>messages\<close>. A nil \<^verbatim>\<open>messages\<close> slice is the empty list
  (nothing was appended).
\<close>

fun convert_messages :: "Message list \<Rightarrow> string \<Rightarrow> anthropicMessage list \<Rightarrow> string \<times> anthropicMessage list" where
  "convert_messages [] systemPrompt messages = (systemPrompt, messages)"
| "convert_messages (msg # rest) systemPrompt messages =
     (if msg_Role msg = ''system'' then convert_messages rest (msg_Content msg) messages
      else
        let role = (if msg_Role msg = ''assistant'' then ''assistant'' else ''user'')
        in convert_messages rest systemPrompt
             (messages @ [\<lparr>am_Role = role, am_Content = msg_Content msg\<rparr>]))"

definition convertRequest :: "ChatCompletionRequest \<Rightarrow> anthropicRequest" where
  "convertRequest req =
     (let (systemPrompt, messages) =
            convert_messages (case req_Messages req of None \<Rightarrow> [] | Some ms \<Rightarrow> ms) [] [];
          maxTokens = (case req_MaxTokens req of None \<Rightarrow> 4096 | Some n \<Rightarrow> n);
          model = mapModel (req_Model req)
      in \<lparr>ar_Model = model,
          ar_Messages = messages,
          ar_MaxTokens = maxTokens,
          ar_Temperature = req_Temperature req,
          ar_TopP = req_TopP req,
          ar_Stream = False,
          ar_System = systemPrompt\<rparr>)"

definition marshal_anthropicMessage :: "anthropicMessage \<Rightarrow> json" where
  "marshal_anthropicMessage m =
     JObject [(''role'', JString (am_Role m)), (''content'', JString (am_Content m))]"

definition marshal_anthropicRequest :: "anthropicRequest \<Rightarrow> json option" where
  "marshal_anthropicRequest r =
     struct_object
       [always_string ''model'' (ar_Model r),
        Some [(''messages'',
               if ar_Messages r = [] then JNull
               else JArray (map marshal_anthropicMessage (ar_Messages r)))],
        Some [(''max_tokens'', JInt (sint (ar_MaxTokens r)))],
        omitempty_float_ptr ''temperature'' (ar_Temperature r),
        omitempty_float_ptr ''top_p'' (ar_TopP r),
        omitempty_bool ''stream'' (ar_Stream r),
        omitempty_string ''system'' (ar_System r)]"

definition Anthropic_request_body :: "ChatCompletionRequest \<Rightarrow> json option" where
  "Anthropic_request_body req = marshal_anthropicRequest (convertRequest req)"

definition Anthropic_stream_body :: "ChatCompletionRequest \<Rightarrow> json option" where
  "Anthropic_stream_body req = marshal_anthropicRequest ((convertRequest req)\<lparr>ar_Stream := True\<rparr>)"

definition convertResponse :: "env \<Rightarrow> anthropicResponse \<Rightarrow> string \<Rightarrow> ChatCompletionResponse" where
  "convertResponse e resp requestModel =
     (let content = concat (map ac_Text (filter (\<lambda>c. ac_Type c = ''text'') (an_Content resp)));
          finishReason = (if an_StopReason resp = ''max_tokens'' then ''length'' else ''stop'')
      in \<lparr>resp_ID = an_ID resp,
          resp_Object = ''chat.completion'',
          resp_Created = unix_now e,
          resp_Model = requestModel,
          resp_Choices =
            [\<lparr>ch_Index = 0,
              ch_Message = \<lparr>msg_Role = ''assistant'', msg_Content = content, msg_Name = []\<rparr>,
              ch_FinishReason = finishReason\<rparr>],
          resp_Usage =
            \<lparr>PromptTokens = InputTokens (an_Usage resp),
             CompletionTokens = OutputTokens (an_Usage resp),
             TotalTokens = InputTokens (an_Usage resp) + OutputTokens (an_Usage resp)\<rparr>,
          resp_SystemFingerprint = []\<rparr>)"

definition Anthropic_ChatCompletion :: "env \<Rightarrow> AnthropicProvider \<Rightarrow> ChatCompletionRequest \<Rightarrow> call_result" where
  "Anthropic_ChatCompletion e p req =
     (case Anthropic_request_body req of
        None \<Rightarrow> call_failed MarshalFailed
      | Some body \<Rightarrow>
          if \<not> url_valid e (an_baseURL p @ ''/messages'') then call_failed CreateRequestFailed
          else
            let rr = doWithRetry (an_maxRetries p) (upstream e) in
            \<lparr>cr_result =
               (case rr_result rr of
                  Inl err \<Rightarrow> Inl err
                | Inr (st, bodyBytes) \<Rightarrow>
                    if st \<noteq> 200
                    then Inl (ProviderErr \<lparr>pe_Provider = an_name p, pe_StatusCode = st,
                                           pe_Message = bodyBytes, pe_Type = ''api_error''\<rparr>)
                    else (case decodeAnthropic e bodyBytes of
                            None \<Rightarrow> Inl DecodeFailed
                          | Some anthropicResp \<Rightarrow> Inr (convertResponse e anthropicResp (req_Model req)))),
             cr_sent = Some body,
             cr_attempts = rr_attempts rr,
             cr_slept = rr_slept rr\<rparr>)"

text \<open>\<^verbatim>\<open>anthropicStreamAdapter.Read\<close> hands the upstream bytes through unchanged.\<close>

definition Anthropic_ChatCompletionStream :: "env \<Rightarrow> AnthropicProvider \<Rightarrow> ChatCompletionRequest \<Rightarrow> stream_result" where
  "Anthropic_ChatCompletionStream e p req =
     (case Anthropic_stream_body req of
        None \<Rightarrow> stream_failed MarshalFailed
      | Some body \<Rightarrow>
          if \<not> url_valid e (an_baseURL p @ ''/messages'') then stream_failed CreateRequestFailed
          else
            \<lparr>sr_result =
               (case upstream e 0 of
                  DoError err \<Rightarrow> Inl (RequestFailed (TransportError err))
                | DoResponse st bodyBytes \<Rightarrow>
                    if st \<noteq> 200
                    then Inl (ProviderErr \<lparr>pe_Provider = an_name p, pe_StatusCode = st,
                                           pe_Message = bodyBytes, pe_Type = ''api_error''\<rparr>)
                    else Inr bodyBytes),
             sr_sent = Some body,
             sr_attempts = 1\<rparr>)"

definition Anthropic_HealthCheck :: "env \<Rightarrow> AnthropicProvider \<Rightarrow> AnthropicProvider \<times> go_error option" where
  "Anthropic_HealthCheck e p =
     (if \<not> url_valid e (an_baseURL p @ ''/messages'') then (p, Some CreateRequestFailed)
      else (case upstream e 0 of
              DoError err \<Rightarrow> (p, Some (TransportError err))
            | DoResponse st bodyBytes \<Rightarrow>
                if st \<noteq> 200 \<and> st \<noteq> 400 then (p, Some (HealthCheckFailed st)) else (p, None)))"

subsection \<open>The \<^verbatim>\<open>Provider\<close> interface\<close>

datatype Provider = OpenAI OpenAIProvider | Anthropic AnthropicProvider

fun Name :: "Provider \<Rightarrow> string" where
  "Name (OpenAI p) = oa_name p"
| "Name (Anthropic p) = an_name p"

fun Models :: "Provider \<Rightarrow> string list" where
  "Models (OpenAI p) = oa_models p"
| "Models (Anthropic p) = an_models p"

fun SupportsModel :: "Provider \<Rightarrow> string \<Rightarrow> bool" where
  "SupportsModel (OpenAI p) model = OpenAI_SupportsModel p model"
| "SupportsModel (Anthropic p) model = Anthropic_SupportsModel p model"

fun ChatCompletion :: "env \<Rightarrow> Provider \<Rightarrow> ChatCompletionRequest \<Rightarrow> call_result" where
  "ChatCompletion e (OpenAI p) req = OpenAI_ChatCompletion e p req"
| "ChatCompletion e (Anthropic p) req = Anthropic_ChatCompletion e p req"

fun ChatCompletionStream :: "env \<Rightarrow> Provider \<Rightarrow> ChatCompletionRequest \<Rightarrow> stream_result" where
  "ChatCompletionStream e (OpenAI p) req = OpenAI_ChatCompletionStream e p req"
| "ChatCompletionStream e (Anthropic p) req = Anthropic_ChatCompletionStream e p req"

fun HealthCheck :: "env \<Rightarrow> Provider \<Rightarrow> Provider \<times> go_error option" where
  "HealthCheck e (OpenAI p) = (case OpenAI_HealthCheck e p of (p', err) \<Rightarrow> (OpenAI p', err))"
| "HealthCheck e (Anthropic p) = (case Anthropic_HealthCheck e p of (p', err) \<Rightarrow> (Anthropic p', err))"

text \<open>Model pricing (USD per 1K tokens); \<^verbatim>\<open>float64\<close> arithmetic is read over the reals.\<close>

definition ModelPricing :: "(string \<times> real \<times> real) list" where
  "ModelPricing =
     [(''gpt-4'', 0.03, 0.06),
      (''gpt-4-32k'', 0.06, 0.12),
      (''gpt-4-turbo'', 0.01, 0.03),
      (''gpt-4o'', 0.005, 0.015),
      (''gpt-4o-mini'', 0.00015, 0.0006),
      (''gpt-3.5-turbo'', 0.0005, 0.0015),
      (''claude-3-opus'', 0.015, 0.075),
      (''claude-3-sonnet'', 0.003, 0.015),
      (''claude-3-haiku'', 0.00025, 0.00125),
      (''claude-3-5-sonnet'', 0.003, 0.015)]"

definition CalculateCost :: "string \<Rightarrow> go_int \<Rightarrow> go_int \<Rightarrow> real" where
  "CalculateCost model promptTokens completionTokens =
     (case map_of ModelPricing model of
        None \<Rightarrow> 0
      | Some (pin, pout) \<Rightarrow>
          (real_of_int (sint promptTokens) / 1000) * pin
          + (real_of_int (sint completionTokens) / 1000) * pout)"

section \<open>Provider registry\<close>

text \<open>
  A Go map is an association list with distinct keys, read with \<open>map_of\<close> and written
  with \<open>AList.update\<close>. The order of \<open>providers\<close> stands for the order in which
  \<^verbatim>\<open>range r.providers\<close> visits the map, which Go leaves open; every statement below
  holds for all registries, hence for every such order.
\<close>

record ProviderConfig =
  pc_Name :: string
  pc_APIKey :: string
  pc_BaseURL :: string
  pc_Models :: "string list"
  pc_Priority :: int
  pc_Timeout :: int
  pc_MaxRetries :: int

record ModelMapping =
  mm_Provider :: string
  mm_Model :: string

record RoutingConfig =
  DefaultProvider :: string
  ModelMappings :: "(string \<times> ModelMapping) list"
  FallbackChain :: "string list"

record Config =
  cfg_Providers :: "ProviderConfig list"
  cfg_Routing :: RoutingConfig

record Registry =
  providers :: "(string \<times> Provider) list"
  modelMapping :: "(string \<times> string) list"
  fallbackChain :: "string list"
  defaultProvider :: string

definition createProvider :: "ProviderConfig \<Rightarrow> Provider" where
  "createProvider cfg =
     (if pc_Name cfg = ''anthropic''
      then Anthropic (NewAnthropicProvider
             \<lparr>acf_Name = pc_Name cfg, acf_APIKey = pc_APIKey cfg, acf_BaseURL = pc_BaseURL cfg,
              acf_Models = pc_Models cfg, acf_Timeout = pc_Timeout cfg,
              acf_MaxRetries = pc_MaxRetries cfg\<rparr>)
      else OpenAI (NewOpenAIProvider
             \<lparr>oc_Name = pc_Name cfg, oc_APIKey = pc_APIKey cfg, oc_BaseURL = pc_BaseURL cfg,
              oc_Models = pc_Models cfg, oc_Timeout = pc_Timeout cfg,
              oc_MaxRetries = pc_MaxRetries cfg\<rparr>))"

definition register_provider :: "ProviderConfig \<Rightarrow> Registry \<Rightarrow> Registry" where
  "register_provider provCfg r =
     r\<lparr>providers := AList.update (pc_Name provCfg) (createProvider provCfg) (providers r),
       modelMapping := fold (\<lambda>model mm. AList.update model (pc_Name provCfg) mm)
                            (pc_Models provCfg) (modelMapping r)\<rparr>"

definition NewRegistry :: "Config \<Rightarrow> Registry" where
  "NewRegistry cfg =
     (let r0 = \<lparr>providers = [], modelMapping = [],
                fallbackChain = FallbackChain (cfg_Routing cfg),
                defaultProvider = DefaultProvider (cfg_Routing cfg)\<rparr>;
          r1 = fold register_provider (cfg_Providers cfg) r0
      in r1\<lparr>modelMapping := fold (\<lambda>(alias, mapping) mm. AList.update alias (mm_Provider mapping) mm)
                                  (ModelMappings (cfg_Routing cfg)) (modelMapping r1)\<rparr>)"

definition mapped_provider :: "Registry \<Rightarrow> string \<Rightarrow> Provider option" where
  "mapped_provider r model =
     (case map_of (modelMapping r) model of
        None \<Rightarrow> None
      | Some providerName \<Rightarrow> map_of (providers r) providerName)"

definition supporting_provider :: "Registry \<Rightarrow> string \<Rightarrow> Provider option" where
  "supporting_provider r model =
     find (\<lambda>provider. SupportsModel provider model) (map snd (providers r))"

definition default_provider :: "Registry \<Rightarrow> Provider option" where
  "default_provider r =
     (if defaultProvider r \<noteq> [] then map_of (providers r) (defaultProvider r) else None)"

definition GetForModel :: "Registry \<Rightarrow> string \<Rightarrow> go_error + Provider" where
  "GetForModel r model =
     (case mapped_provider r model of
        Some provider \<Rightarrow> Inr provider
      | None \<Rightarrow>
          (case supporting_provider r model of
             Some provider \<Rightarrow> Inr provider
           | None \<Rightarrow>
               (case default_provider r of
                  Some provider \<Rightarrow> Inr provider
                | None \<Rightarrow> Inl (NoProviderFound model))))"

section \<open>Metrics collector\<close>

record ProviderStats =
  ps_Requests :: go_int
  ps_Tokens :: go_int
  ps_Cost :: real
  ps_AvgLatencyMs :: real
  ps_Errors :: go_int

record ModelStats =
  ms_Requests :: go_int
  ms_PromptTokens :: go_int
  ms_CompletionTokens :: go_int
  ms_Cost :: real
  ms_AvgLatencyMs :: real

record Collector =
  requests :: "ProviderMetrics list"
  totalCost :: real
  totalTokens :: go_int
  cacheHits :: go_int
  cacheMisses :: go_int
  byProvider :: "(string \<times> ProviderStats) list"
  byModel :: "(string \<times> ModelStats) list"

definition NewCollector :: Collector where
  "NewCollector =
     \<lparr>requests = [], totalCost = 0, totalTokens = 0, cacheHits = 0, cacheMisses = 0,
      byProvider = [], byModel = []\<rparr>"

definition hour :: int where
  "hour = 3600 * 1000000000"

definition update_provider_stats :: "ProviderMetrics \<Rightarrow> ProviderStats \<Rightarrow> ProviderStats" where
  "update_provider_stats m ps =
     (let n = ps_Requests ps + 1
      in \<lparr>ps_Requests = n,
          ps_Tokens = ps_Tokens ps + pm_TotalTokens m,
          ps_Cost = ps_Cost ps + pm_Cost m,
          ps_AvgLatencyMs =
            (ps_AvgLatencyMs ps * real_of_int (sint (n - 1)) + real_of_int (pm_LatencyMs m))
            / real_of_int (sint n),
          ps_Errors = (if \<not> pm_Success m then ps_Errors ps + 1 else ps_Errors ps)\<rparr>)"

definition update_model_stats :: "ProviderMetrics \<Rightarrow> ModelStats \<Rightarrow> ModelStats" where
  "update_model_stats m ms =
     (let n = ms_Requests ms + 1
      in \<lparr>ms_Requests = n,
          ms_PromptTokens = ms_PromptTokens ms + pm_PromptTokens m,
          ms_CompletionTokens = ms_CompletionTokens ms + pm_CompletionTokens m,
          ms_Cost = ms_Cost ms + pm_Cost m,
          ms_AvgLatencyMs =
            (ms_AvgLatencyMs ms * real_of_int (sint (n - 1)) + real_of_int (pm_LatencyMs m))
            / real_of_int (sint n)\<rparr>)"

definition RecordRequest :: "int \<Rightarrow> Collector \<Rightarrow> ProviderMetrics \<Rightarrow> Collector" where
  "RecordRequest now c m =
     (let ps = (case map_of (byProvider c) (pm_Provider m) of
                  None \<Rightarrow> \<lparr>ps_Requests = 0, ps_Tokens = 0, ps_Cost = 0, ps_AvgLatencyMs = 0, ps_Errors = 0\<rparr>
                | Some ps \<Rightarrow> ps);
          ms = (case map_of (byModel c) (pm_Model m) of
                  None \<Rightarrow> \<lparr>ms_Requests = 0, ms_PromptTokens = 0, ms_CompletionTokens = 0,
                           ms_Cost = 0, ms_AvgLatencyMs = 0\<rparr>
                | Some ms \<Rightarrow> ms);
          cutoff = now - hour
      in c\<lparr>requests := filter (\<lambda>req. pm_Timestamp req > cutoff) (requests c @ [m]),
           totalCost := totalCost c + pm_Cost m,
           totalTokens := totalTokens c + pm_TotalTokens m,
           byProvider := AList.update (pm_Provider m) (update_provider_stats m ps) (byProvider c),
           byModel := AList.update (pm_Model m) (update_model_stats m ms) (byModel c)\<rparr>)"

definition RecordCacheHit :: "Collector \<Rightarrow> Collector" where
  "RecordCacheHit c = c\<lparr>cacheHits := cacheHits c + 1\<rparr>"

definition RecordCacheMiss :: "Collector \<Rightarrow> Collector" where
  "RecordCacheMiss c = c\<lparr>cacheMisses := cacheMisses c + 1\<rparr>"

section \<open>Response cache\<close>

text \<open>
  \<open>lru\<close> is the \<^verbatim>\<open>container/list\<close> of keys, front first. An item's \<^verbatim>\<open>element\<close>
  pointer is the position of its key in that list, so \<^verbatim>\<open>lru.Remove(item.element)\<close>
  removes the key and \<^verbatim>\<open>lru.MoveToFront(item.element)\<close> moves it to the head; both do
  nothing for an element that is not in the list. Times are in nanoseconds.
\<close>

record cacheItem =
  ci_key :: string
  ci_value :: bytes
  ci_expiresAt :: int

record MemoryCache =
  maxSize :: int
  ttl :: int
  items :: "(string \<times> cacheItem) list"
  lru :: "string list"
  hits :: go_int
  misses :: go_int

definition NewMemoryCache :: "int \<Rightarrow> int \<Rightarrow> MemoryCache" where
  "NewMemoryCache maxSizeMB ttl0 =
     \<lparr>maxSize = sint (word_of_int (maxSizeMB * 1024 * 1024) :: 64 word),
      ttl = ttl0, items = [], lru = [], hits = 0, misses = 0\<rparr>"

definition MoveToFront :: "string \<Rightarrow> string list \<Rightarrow> string list" where
  "MoveToFront k l = (if k \<in> set l then k # remove1 k l else l)"

definition removeItem :: "MemoryCache \<Rightarrow> cacheItem \<Rightarrow> MemoryCache" where
  "removeItem c item =
     c\<lparr>lru := remove1 (ci_key item) (lru c), items := AList.delete (ci_key item) (items c)\<rparr>"

definition currentSize :: "MemoryCache \<Rightarrow> int" where
  "currentSize c = sum_list (map (\<lambda>(k, item). int (length (ci_value item))) (items c))"

definition evictOldest :: "MemoryCache \<Rightarrow> MemoryCache" where
  "evictOldest c =
     (if lru c = [] then c
      else (case map_of (items c) (last (lru c)) of
              Some item \<Rightarrow> removeItem c item
            | None \<Rightarrow> c))"

text \<open>
  The eviction loop of \<^verbatim>\<open>Set\<close>. It has no bound of its own: when the key at the back
  of the list has no item, \<^verbatim>\<open>evictOldest\<close> changes nothing and the loop runs on.
  Not returning is the value \<open>None\<close>.
\<close>

partial_function (option) evict_loop :: "MemoryCache \<Rightarrow> int \<Rightarrow> MemoryCache option" where
  "evict_loop c n =
     (if currentSize c + n > maxSize c \<and> length (lru c) > 0
      then evict_loop (evictOldest c) n
      else Some c)"

definition cache_Get :: "int \<Rightarrow> MemoryCache \<Rightarrow> string \<Rightarrow> MemoryCache \<times> bytes option" where
  "cache_Get now c key =
     (case map_of (items c) key of
        None \<Rightarrow> (c\<lparr>misses := misses c + 1\<rparr>, None)
      | Some item \<Rightarrow>
          if now > ci_expiresAt item
          then ((removeItem c item)\<lparr>misses := misses c + 1\<rparr>, None)
          else (c\<lparr>lru := MoveToFront key (lru c), hits := hits c + 1\<rparr>, Some (ci_value item)))"

definition cache_Set :: "int \<Rightarrow> MemoryCache \<Rightarrow> string \<Rightarrow> bytes \<Rightarrow> MemoryCache option" where
  "cache_Set now c key val =
     (case map_of (items c) key of
        Some item \<Rightarrow>
          Some (c\<lparr>items := AList.update key (item\<lparr>ci_value := val, ci_expiresAt := now + ttl c\<rparr>) (items c),
                  lru := MoveToFront key (lru c)\<rparr>)
      | None \<Rightarrow>
          (case evict_loop c (int (length val)) of
             None \<Rightarrow> None
           | Some c' \<Rightarrow>
               Some (c'\<lparr>lru := key # lru c',
                        items := AList.update key
                                   \<lparr>ci_key = key, ci_value = val, ci_expiresAt = now + ttl c'\<rparr>
                                   (items c')\<rparr>)))"

definition cache_Delete :: "MemoryCache \<Rightarrow> string \<Rightarrow> MemoryCache" where
  "cache_Delete c key =
     (case map_of (items c) key of Some item \<Rightarrow> removeItem c item | None \<Rightarrow> c)"

definition cache_Clear :: "MemoryCache \<Rightarrow> MemoryCache" where
  "cache_Clear c = c\<lparr>items := [], lru := []\<rparr>"

section \<open>Gateway dispatcher (package server)\<close>

text \<open>
  What the handler reads from outside the program, besides the network: the response
  encoder (\<^verbatim>\<open>json.Marshal(resp)\<close>, \<open>Inl\<close> its error text), the digest of the cache key
  (the value tree written out, hashed with SHA-256 and printed in hex; \<open>None\<close> is the
  empty input left by an ignored encoding error), the \<^verbatim>\<open>%.6f\<close> printer, the line
  scanner over a stream, whether the response writer can flush, and the clock at each
  place the code reads it.
\<close>

record server_env =
  net :: env
  marshalResponse :: "ChatCompletionResponse \<Rightarrow> string + bytes"
  sha256_hex :: "json option \<Rightarrow> string"
  format_cost :: "real \<Rightarrow> string"
  scan_lines :: "bytes \<Rightarrow> string list"
  is_flusher :: bool
  t_start :: int
  t_lookup :: int
  t_since :: int
  t_stamp :: int
  t_collect :: int
  t_store :: int

datatype body = BodyJSON json | BodyBytes bytes

record http_response =
  rs_status :: int
  rs_headers :: "(string \<times> string) list"
  rs_body :: body

record Server =
  srv_registry :: Registry
  srv_cache :: "MemoryCache option"
  srv_metrics :: Collector

text \<open>
  The result of handling one request: the response, the server afterwards, the names of
  the providers whose \<^verbatim>\<open>ChatCompletion\<close> or \<^verbatim>\<open>ChatCompletionStream\<close> was called, the
  requests handed to them, and the arguments of the calls of \<^verbatim>\<open>RecordRequest\<close>, each
  in order.
\<close>

record handled =
  h_response :: http_response
  h_server :: Server
  h_calls :: "string list"
  h_forwarded :: "ChatCompletionRequest list"
  h_recorded :: "ProviderMetrics list"

definition writeError :: "(string \<times> string) list \<Rightarrow> int \<Rightarrow> string \<Rightarrow> string \<Rightarrow> http_response" where
  "writeError hdrs status errType message =
     \<lparr>rs_status = status,
      rs_headers = AList.update ''Content-Type'' ''application/json'' hdrs,
      rs_body = BodyJSON (JObject [(''error'',
                  JObject [(''message'', JString message),
                           (''type'', JString errType),
                           (''code'', JInt status)])])\<rparr>"

definition provider_failure :: "go_error \<Rightarrow> http_response" where
  "provider_failure err =
     (case err of
        ProviderErr provErr \<Rightarrow> writeError [] (pe_StatusCode provErr) (pe_Type provErr) (pe_Message provErr)
      | _ \<Rightarrow> writeError [] 500 ''provider_error'' (error_string err))"

definition cache_key_json :: "ChatCompletionRequest \<Rightarrow> json option" where
  "cache_key_json req =
     struct_object
       [always_string ''Model'' (req_Model req),
        Some [(''Messages'', marshal_Messages (req_Messages req))],
        (case req_Temperature req of
           None \<Rightarrow> Some [(''Temperature'', JNull)]
         | Some w \<Rightarrow> if float64_finite w then Some [(''Temperature'', JFloat w)] else None),
        Some [(''MaxTokens'', (case req_MaxTokens req of None \<Rightarrow> JNull | Some n \<Rightarrow> JInt (sint n)))]]"

definition generateCacheKey :: "server_env \<Rightarrow> ChatCompletionRequest \<Rightarrow> string" where
  "generateCacheKey se req = sha256_hex se (cache_key_json req)"

text \<open>\<^verbatim>\<open>req.XGateway == nil || req.XGateway.Cache == nil || *req.XGateway.Cache\<close>\<close>

definition cache_requested :: "ChatCompletionRequest \<Rightarrow> bool" where
  "cache_requested req =
     (case req_XGateway req of
        None \<Rightarrow> True
      | Some g \<Rightarrow> (case gx_Cache g of None \<Rightarrow> True | Some b \<Rightarrow> b))"

text \<open>
  The \<^verbatim>\<open>ProviderMetrics\<close> literal that \<^verbatim>\<open>handleChatCompletion\<close> hands to
  \<^verbatim>\<open>RecordRequest\<close> after a successful call, and the one
  \<^verbatim>\<open>handleStreamingCompletion\<close> builds (fields it leaves out are zero).
\<close>

definition completion_metrics :: "server_env \<Rightarrow> Provider \<Rightarrow> ChatCompletionRequest \<Rightarrow> ChatCompletionResponse \<Rightarrow> ProviderMetrics" where
  "completion_metrics se prov req resp =
     \<lparr>pm_Provider = Name prov, pm_Model = req_Model req,
      pm_PromptTokens = PromptTokens (resp_Usage resp),
      pm_CompletionTokens = CompletionTokens (resp_Usage resp),
      pm_TotalTokens = TotalTokens (resp_Usage resp),
      pm_LatencyMs = (t_since se - t_start se) div 1000000,
      pm_Cost = CalculateCost (req_Model req) (PromptTokens (resp_Usage resp))
                  (CompletionTokens (resp_Usage resp)),
      pm_Cached = False, pm_Success = True,
      pm_Timestamp = t_stamp se\<rparr>"

definition streaming_metrics :: "server_env \<Rightarrow> Provider \<Rightarrow> ChatCompletionRequest \<Rightarrow> ProviderMetrics" where
  "streaming_metrics se prov req =
     \<lparr>pm_Provider = Name prov, pm_Model = req_Model req,
      pm_PromptTokens = 0, pm_CompletionTokens = 0, pm_TotalTokens = 0,
      pm_LatencyMs = 0, pm_Cost = 0, pm_Cached = False, pm_Success = True,
      pm_Timestamp = t_stamp se\<rparr>"

definition handleStreamingCompletion :: "server_env \<Rightarrow> Server \<Rightarrow> Provider \<Rightarrow> ChatCompletionRequest \<Rightarrow> handled" where
  "handleStreamingCompletion se s prov req =
     (case sr_result (ChatCompletionStream (net se) prov req) of
        Inl err \<Rightarrow>
          \<lparr>h_response = provider_failure err, h_server = s, h_calls = [Name prov], h_forwarded = [req], h_recorded = []\<rparr>
      | Inr stream \<Rightarrow>
          let hdrs = [(''Content-Type'', ''text/event-stream''), (''Cache-Control'', ''no-cache''),
                      (''Connection'', ''keep-alive''), (''X-Accel-Buffering'', ''no'')]
          in if \<not> is_flusher se
             then \<lparr>h_response = writeError hdrs 500 ''streaming_not_supported'' ''streaming not supported'',
                   h_server = s, h_calls = [Name prov], h_forwarded = [req], h_recorded = []\<rparr>
             else
               let m = streaming_metrics se prov req
               in \<lparr>h_response =
                     \<lparr>rs_status = 200, rs_headers = hdrs,
                      rs_body = BodyBytes (concat (map (\<lambda>line. line @ [CHR 0x0A])
                                   (filter (\<lambda>line. line \<noteq> []) (scan_lines se stream))))\<rparr>,
                   h_server = s\<lparr>srv_metrics := RecordRequest (t_collect se) (srv_metrics s) m\<rparr>,
                   h_calls = [Name prov],
                   h_forwarded = [req],
                   h_recorded = [m]\<rparr>)"

text \<open>
  The non-streaming path of \<^verbatim>\<open>handleChatCompletion\<close> from \<^verbatim>\<open>prov.ChatCompletion\<close> on.
  The result is \<open>None\<close> when the eviction loop of the cache never returns.
\<close>

definition dispatch :: "server_env \<Rightarrow> Server \<Rightarrow> Provider \<Rightarrow> ChatCompletionRequest \<Rightarrow> handled option" where
  "dispatch se s prov req =
     (case cr_result (ChatCompletion (net se) prov req) of
        Inl err \<Rightarrow>
          Some \<lparr>h_response = provider_failure err, h_server = s, h_calls = [Name prov], h_forwarded = [req], h_recorded = []\<rparr>
      | Inr resp \<Rightarrow>
          let latency = (t_since se - t_start se) div 1000000;
              cost = CalculateCost (req_Model req) (PromptTokens (resp_Usage resp))
                       (CompletionTokens (resp_Usage resp));
              m = completion_metrics se prov req resp;
              s1 = s\<lparr>srv_metrics := RecordRequest (t_collect se) (srv_metrics s) m\<rparr>
          in (case marshalResponse se resp of
                Inl msg \<Rightarrow>
                  Some \<lparr>h_response = writeError [] 500 ''marshal_error'' msg, h_server = s1,
                        h_calls = [Name prov], h_forwarded = [req], h_recorded = [m]\<rparr>
              | Inr respBytes \<Rightarrow>
                  let ok = \<lparr>rs_status = 200,
                            rs_headers = [(''Content-Type'', ''application/json''), (''X-Cache'', ''MISS''),
                                          (''X-Latency-Ms'', show_int latency),
                                          (''X-Cost-USD'', format_cost se cost)],
                            rs_body = BodyBytes respBytes\<rparr>
                  in (case srv_cache s1 of
                        Some c \<Rightarrow>
                          if cache_requested req
                          then (case cache_Set (t_store se) c (generateCacheKey se req) respBytes of
                                  None \<Rightarrow> None
                                | Some c' \<Rightarrow>
                                    Some \<lparr>h_response = ok, h_server = s1\<lparr>srv_cache := Some c'\<rparr>,
                                          h_calls = [Name prov], h_forwarded = [req], h_recorded = [m]\<rparr>)
                          else Some \<lparr>h_response = ok, h_server = s1, h_calls = [Name prov], h_forwarded = [req], h_recorded = [m]\<rparr>
                      | None \<Rightarrow>
                          Some \<lparr>h_response = ok, h_server = s1, h_calls = [Name prov], h_forwarded = [req], h_recorded = [m]\<rparr>)))"

text \<open>
  \<^verbatim>\<open>handleChatCompletion\<close>. The request body arrives decoded: \<open>Inl\<close> is the error text of
  \<^verbatim>\<open>json.NewDecoder(r.Body).Decode\<close>, \<open>Inr\<close> the request.
\<close>

definition handleChatCompletion :: "server_env \<Rightarrow> Server \<Rightarrow> string + ChatCompletionRequest \<Rightarrow> handled option" where
  "handleChatCompletion se s parsed =
     (case parsed of
        Inl err \<Rightarrow>
          Some \<lparr>h_response = writeError [] 400 ''invalid request body'' err, h_server = s,
                h_calls = [], h_forwarded = [], h_recorded = []\<rparr>
      | Inr req \<Rightarrow>
          (case GetForModel (srv_registry s) (req_Model req) of
             Inl err \<Rightarrow>
               Some \<lparr>h_response = writeError [] 400 ''model not found'' (error_string err), h_server = s,
                     h_calls = [], h_forwarded = [], h_recorded = []\<rparr>
           | Inr prov \<Rightarrow>
               (case (if \<not> req_Stream req \<and> cache_requested req then srv_cache s else None) of
                  Some c \<Rightarrow>
                    (case cache_Get (t_lookup se) c (generateCacheKey se req) of
                       (c', Some cached) \<Rightarrow>
                         Some \<lparr>h_response =
                                 \<lparr>rs_status = 200,
                                  rs_headers = [(''Content-Type'', ''application/json''), (''X-Cache'', ''HIT'')],
                                  rs_body = BodyBytes cached\<rparr>,
                               h_server = s\<lparr>srv_cache := Some c', srv_metrics := RecordCacheHit (srv_metrics s)\<rparr>,
                               h_calls = [], h_forwarded = [], h_recorded = []\<rparr>
                     | (c', None) \<Rightarrow>
                         dispatch se (s\<lparr>srv_cache := Some c', srv_metrics := RecordCacheMiss (srv_metrics s)\<rparr>)
                           prov req)
                | None \<Rightarrow>
                    if req_Stream req then Some (handleStreamingCompletion se s prov req)
                    else dispatch se s prov req)))"

section \<open>Rate limiter (package middleware)\<close>

text \<open>
  Modelled from the spec: the token bucket \<^verbatim>\<open>rate.Limiter\<close> of the library
  \<^verbatim>\<open>golang.org/x/time/rate\<close>, whose code is not part of the repository. The spec's
  words (4.4 and the data model): a bucket is \<open>{capacity, refillRate, tokensRemaining,
  lastRefill}\<close>; refill is continuous at \<open>refillRate\<close> up to \<open>capacity\<close>; \<open>allow\<close>
  consumes one token if available, else denies without blocking. A new bucket is full.
  Where the spec is silent the library's documented behaviour is followed: a rate that
  is not positive refills nothing, and an infinite rate grants every call and takes no
  token. Time is in seconds and, like the token count, read over the reals.

  The rate is a \<^verbatim>\<open>float64\<close> quotient and can be infinite or undefined: \<open>float_div\<close>
  is the IEEE division of two finite numbers, which does not fail on a zero divisor.
\<close>

datatype Limit = Finite real | PosInf | NegInf | NaN

definition float_div :: "real \<Rightarrow> real \<Rightarrow> Limit" where
  "float_div x y =
     (if y \<noteq> 0 then Finite (x / y)
      else if x > 0 then PosInf
      else if x < 0 then NegInf
      else NaN)"

record Limiter =
  lim_limit :: Limit
  lim_burst :: int
  lim_tokens :: real
  lim_last :: real

definition NewLimiter :: "real \<Rightarrow> Limit \<Rightarrow> int \<Rightarrow> Limiter" where
  "NewLimiter now r b = \<lparr>lim_limit = r, lim_burst = b, lim_tokens = real_of_int b, lim_last = now\<rparr>"

definition tokensFromDuration :: "Limit \<Rightarrow> real \<Rightarrow> real" where
  "tokensFromDuration r d = (case r of Finite x \<Rightarrow> if x \<le> 0 then 0 else d * x | _ \<Rightarrow> 0)"

definition available :: "real \<Rightarrow> Limiter \<Rightarrow> real" where
  "available now l =
     min (real_of_int (lim_burst l))
         (lim_tokens l + tokensFromDuration (lim_limit l) (max 0 (now - lim_last l)))"

definition limiter_Allow :: "real \<Rightarrow> Limiter \<Rightarrow> Limiter \<times> bool" where
  "limiter_Allow now l =
     (if lim_limit l = PosInf then (l, True)
      else
        let tokens = available now l
        in if tokens \<ge> 1 then (l\<lparr>lim_tokens := tokens - 1, lim_last := now\<rparr>, True)
           else (l\<lparr>lim_tokens := tokens, lim_last := now\<rparr>, False))"

text \<open>The configuration the limiter reads (\<^verbatim>\<open>Window\<close> is a duration in nanoseconds).\<close>

record RateLimit =
  rl_Requests :: int
  rl_Window :: int
  rl_Tokens :: int

record RateLimitConfig =
  rlc_Enabled :: bool
  rlc_Global :: RateLimit
  rlc_PerKey :: RateLimit

record RateLimiter =
  rl_cfg :: RateLimitConfig
  limiters :: "(string \<times> Limiter) list"
  global :: "Limiter option"

definition Seconds :: "int \<Rightarrow> real" where
  "Seconds d = real_of_int d / 1000000000"

text \<open>
  \<^verbatim>\<open>rate.NewLimiter(rate.Limit(float64(Requests)/Window.Seconds()), Requests)\<close>, as both
  \<^verbatim>\<open>NewRateLimiter\<close> and \<^verbatim>\<open>getLimiter\<close> write it. With a zero window the quotient is
  \<open>+Inf\<close> for a positive quota.
\<close>

definition new_bucket :: "real \<Rightarrow> RateLimit \<Rightarrow> Limiter" where
  "new_bucket now quota =
     NewLimiter now (float_div (real_of_int (rl_Requests quota)) (Seconds (rl_Window quota)))
       (rl_Requests quota)"

definition NewRateLimiter :: "real \<Rightarrow> RateLimitConfig \<Rightarrow> RateLimiter" where
  "NewRateLimiter now cfg =
     \<lparr>rl_cfg = cfg,
      limiters = [],
      global = (if rl_Requests (rlc_Global cfg) > 0 then Some (new_bucket now (rlc_Global cfg)) else None)\<rparr>"

text \<open>
  \<^verbatim>\<open>getLimiter\<close>: the look-up under the read lock and the second one under the write
  lock see the same map when calls do not interleave.
\<close>

definition getLimiter :: "real \<Rightarrow> RateLimiter \<Rightarrow> string \<Rightarrow> RateLimiter \<times> Limiter" where
  "getLimiter now rl key =
     (case map_of (limiters rl) key of
        Some limiter \<Rightarrow> (rl, limiter)
      | None \<Rightarrow>
          let limiter = new_bucket now (rlc_PerKey (rl_cfg rl))
          in (rl\<lparr>limiters := AList.update key limiter (limiters rl)\<rparr>, limiter))"

text \<open>
  The map holds pointers. \<^verbatim>\<open>limiter.Allow()\<close> changes the bucket that the entry of the
  key points to; a bucket that is not in the map is changed without the map seeing it.
\<close>

definition write_through :: "string \<Rightarrow> Limiter \<Rightarrow> (string \<times> Limiter) list \<Rightarrow> (string \<times> Limiter) list" where
  "write_through key l al = map (\<lambda>(k, v). if k = key then (k, l) else (k, v)) al"

definition per_key_Allow :: "real \<Rightarrow> RateLimiter \<Rightarrow> string \<Rightarrow> RateLimiter \<times> bool" where
  "per_key_Allow now rl key =
     (let (rl1, limiter) = getLimiter now rl key;
          (limiter', ok) = limiter_Allow now limiter
      in (rl1\<lparr>limiters := write_through key limiter' (limiters rl1)\<rparr>, ok))"

definition Allow :: "real \<Rightarrow> RateLimiter \<Rightarrow> string \<Rightarrow> RateLimiter \<times> bool" where
  "Allow now rl key =
     (case global rl of
        None \<Rightarrow> per_key_Allow now rl key
      | Some g \<Rightarrow>
          let (g', ok) = limiter_Allow now g
          in if \<not> ok then (rl\<lparr>global := Some g'\<rparr>, False)
             else per_key_Allow now (rl\<lparr>global := Some g'\<rparr>) key)"

text \<open>\<open>n\<close> calls of \<^verbatim>\<open>Allow(key)\<close> one after the other at the same instant, with their results.\<close>

fun Allow_repeat :: "real \<Rightarrow> RateLimiter \<Rightarrow> string \<Rightarrow> nat \<Rightarrow> RateLimiter \<times> bool list" where
  "Allow_repeat now rl key 0 = (rl, [])"
| "Allow_repeat now rl key (Suc n) =
     (case Allow now rl key of
        (rl', ok) \<Rightarrow> (case Allow_repeat now rl' key n of (rl'', oks) \<Rightarrow> (rl'', ok # oks)))"

text \<open>An earlier history of calls, each at its own time and for its own key.\<close>

fun Allow_history :: "(real \<times> string) list \<Rightarrow> RateLimiter \<Rightarrow> RateLimiter" where
  "Allow_history [] rl = rl"
| "Allow_history ((t, k) # rest) rl = Allow_history rest (fst (Allow t rl k))"

definition granted :: "bool list \<Rightarrow> nat" where
  "granted oks = length (filter (\<lambda>ok. ok) oks)"

section \<open>Values used in the scenarios\<close>

text \<open>
  The request of the spec's scenario A: model \<^verbatim>\<open>gpt-4\<close>, one user message \<^verbatim>\<open>hi\<close>,
  temperature 0.5 (IEEE pattern \<open>0x3FE0000000000000\<close>), everything else unset.
\<close>

definition scenario_request :: ChatCompletionRequest where
  "scenario_request =
     \<lparr>req_Model = ''gpt-4'',
      req_Messages = Some [\<lparr>msg_Role = ''user'', msg_Content = ''hi'', msg_Name = []\<rparr>],
      req_Temperature = Some 0x3FE0000000000000,
      req_TopP = None, req_N = None, req_Stream = False, req_Stop = [],
      req_MaxTokens = None, req_PresencePenalty = None, req_FrequencyPenalty = None,
      req_User = [], req_XGateway = None\<rparr>"

definition scenario_extensions :: GatewayExtensions where
  "scenario_extensions =
     \<lparr>gx_Cache = Some False, gx_Timeout = Some 30, gx_Provider = ''anthropic'',
      gx_Metadata = [(''feature'', ''chat'')]\<rparr>"

text \<open>
  The providers of the configuration shown in the project's README (\<^verbatim>\<open>gateway.yaml\<close>),
  and a network that answers 500 twice and then 200 (the spec's scenario C).
\<close>

definition scenario_openai :: OpenAIProvider where
  "scenario_openai =
     NewOpenAIProvider
       \<lparr>oc_Name = ''openai'', oc_APIKey = ''sk-test'', oc_BaseURL = [],
        oc_Models = [''gpt-4'', ''gpt-4-turbo'', ''gpt-3.5-turbo''], oc_Timeout = 0, oc_MaxRetries = 0\<rparr>"

definition scenario_anthropic :: AnthropicProvider where
  "scenario_anthropic =
     NewAnthropicProvider
       \<lparr>acf_Name = ''anthropic'', acf_APIKey = ''sk-ant-test'', acf_BaseURL = [],
        acf_Models = [''claude-3-opus'', ''claude-3-sonnet'', ''claude-3-haiku''],
        acf_Timeout = 0, acf_MaxRetries = 0\<rparr>"

definition scenario_response :: ChatCompletionResponse where
  "scenario_response =
     \<lparr>resp_ID = ''chatcmpl-1'', resp_Object = ''chat.completion'', resp_Created = 0,
      resp_Model = ''gpt-4'',
      resp_Choices = [\<lparr>ch_Index = 0,
                       ch_Message = \<lparr>msg_Role = ''assistant'', msg_Content = ''hello'', msg_Name = []\<rparr>,
                       ch_FinishReason = ''stop''\<rparr>],
      resp_Usage = \<lparr>PromptTokens = 8, CompletionTokens = 2, TotalTokens = 10\<rparr>,
      resp_SystemFingerprint = []\<rparr>"

definition flaky_env :: env where
  "flaky_env =
     \<lparr>upstream = (\<lambda>n. if n < 2 then DoResponse 500 ''overloaded'' else DoResponse 200 ''ok''),
      url_valid = (\<lambda>u. True),
      decodeOpenAI = (\<lambda>b. Some scenario_response),
      decodeAnthropic = (\<lambda>b. None),
      unix_now = 0\<rparr>"

text \<open>The member names one struct field contributes to an encoded object.\<close>

definition member_keys :: "(string \<times> json) list option \<Rightarrow> string set" where
  "member_keys m = (case m of None \<Rightarrow> {} | Some ms \<Rightarrow> fst ` set ms)"

text \<open>
  When a health probe counts as failed: a transport error, or a status outside the
  accepted ones.
\<close>

definition probe_rejected :: "http_result \<Rightarrow> int set \<Rightarrow> bool" where
  "probe_rejected r accepted = (case r of DoError err \<Rightarrow> True | DoResponse st b \<Rightarrow> st \<notin> accepted)"

text \<open>A network that answers every request with HTTP 400.\<close>

definition bad_request_env :: env where
  "bad_request_env =
     \<lparr>upstream = (\<lambda>n. DoResponse 400 ''invalid_request_error''),
      url_valid = (\<lambda>u. True),
      decodeOpenAI = (\<lambda>b. None),
      decodeAnthropic = (\<lambda>b. None),
      unix_now = 0\<rparr>"




text \<open>
  The gateway of the README's \<^verbatim>\<open>gateway.yaml\<close>: providers \<^verbatim>\<open>openai\<close> and
  \<^verbatim>\<open>anthropic\<close> with their model lists, \<^verbatim>\<open>defaultProvider: openai\<close>; the same
  without a default provider; both with the cache switched off.
\<close>

definition readme_config :: Config where
  "readme_config =
     \<lparr>cfg_Providers =
        [\<lparr>pc_Name = ''openai'', pc_APIKey = ''sk-test'', pc_BaseURL = [],
          pc_Models = [''gpt-4'', ''gpt-4-turbo'', ''gpt-3.5-turbo''],
          pc_Priority = 0, pc_Timeout = 0, pc_MaxRetries = 0\<rparr>,
         \<lparr>pc_Name = ''anthropic'', pc_APIKey = ''sk-ant-test'', pc_BaseURL = [],
          pc_Models = [''claude-3-opus'', ''claude-3-sonnet'', ''claude-3-haiku''],
          pc_Priority = 0, pc_Timeout = 0, pc_MaxRetries = 0\<rparr>],
      cfg_Routing = \<lparr>DefaultProvider = ''openai'', ModelMappings = [],
                     FallbackChain = [''openai'', ''anthropic'']\<rparr>\<rparr>"

definition no_default_config :: Config where
  "no_default_config =
     readme_config\<lparr>cfg_Routing := \<lparr>DefaultProvider = [], ModelMappings = [],
                                     FallbackChain = [''openai'', ''anthropic'']\<rparr>\<rparr>"

definition readme_server :: Server where
  "readme_server =
     \<lparr>srv_registry = NewRegistry readme_config, srv_cache = None, srv_metrics = NewCollector\<rparr>"

definition no_default_server :: Server where
  "no_default_server =
     \<lparr>srv_registry = NewRegistry no_default_config, srv_cache = None, srv_metrics = NewCollector\<rparr>"

text \<open>
  Networks for the scenarios: one that answers 200 with a response the decoder reads as
  \<open>scenario_response\<close>; one whose 200 answer carries a usage object with
  \<^verbatim>\<open>total_tokens\<close> 5 for 1 prompt and 1 completion token; one that answers 401; one
  whose answer decodes, at the Anthropic client, to 8 input and 2 output tokens.
\<close>

definition ok_env :: env where
  "ok_env =
     \<lparr>upstream = (\<lambda>n. DoResponse 200 ''ok''),
      url_valid = (\<lambda>u. True),
      decodeOpenAI = (\<lambda>b. Some scenario_response),
      decodeAnthropic = (\<lambda>b. None),
      unix_now = 0\<rparr>"

definition skewed_env :: env where
  "skewed_env =
     ok_env\<lparr>decodeOpenAI := (\<lambda>b. Some (scenario_response
                \<lparr>resp_Usage := \<lparr>PromptTokens = 1, CompletionTokens = 1, TotalTokens = 5\<rparr>\<rparr>))\<rparr>"

definition unauthorized_env :: env where
  "unauthorized_env = ok_env\<lparr>upstream := (\<lambda>n. DoResponse 401 ''invalid api key'')\<rparr>"

definition claude_env :: env where
  "claude_env =
     ok_env\<lparr>decodeAnthropic := (\<lambda>b. Some
        \<lparr>an_ID = ''msg_1'', an_Type = ''message'', an_Role = ''assistant'',
         an_Content = [\<lparr>ac_Type = ''text'', ac_Text = ''hello''\<rparr>],
         an_Model = ''claude-3-haiku-20240307'', an_StopReason = ''end_turn'',
         an_StopSequence = None,
         an_Usage = \<lparr>InputTokens = 8, OutputTokens = 2\<rparr>\<rparr>)\<rparr>"



text \<open>
  The rest of the handler's surroundings in the scenarios. The cache is off there, so
  the digest is never consulted; it and the cost printer are fixed to constants.
\<close>

definition scenario_server_env :: "env \<Rightarrow> server_env" where
  "scenario_server_env e =
     \<lparr>net = e,
      marshalResponse = (\<lambda>r. Inr ''{}''),
      sha256_hex = (\<lambda>j. []),
      format_cost = (\<lambda>c. ''0.000000''),
      scan_lines = (\<lambda>b. [b]),
      is_flusher = True,
      t_start = 0, t_lookup = 0, t_since = 250000000, t_stamp = 250000000,
      t_collect = 250000000, t_store = 250000000\<rparr>"

text \<open>Projections of a handler result.\<close>

definition calls_of :: "handled option \<Rightarrow> string list" where
  "calls_of r = (case r of None \<Rightarrow> [] | Some h \<Rightarrow> h_calls h)"

definition recorded_of :: "handled option \<Rightarrow> ProviderMetrics list" where
  "recorded_of r = (case r of None \<Rightarrow> [] | Some h \<Rightarrow> h_recorded h)"

definition status_of :: "handled option \<Rightarrow> int option" where
  "status_of r = map_option (\<lambda>h. rs_status (h_response h)) r"

definition error_type_of :: "handled option \<Rightarrow> string option" where
  "error_type_of r =
     (case r of
        Some h \<Rightarrow>
          (case rs_body (h_response h) of
             BodyJSON (JObject [(k, JObject [(k1, m), (k2, JString t), (k3, c)])]) \<Rightarrow> Some t
           | _ \<Rightarrow> None)
      | None \<Rightarrow> None)"

definition usage_consistent :: "ProviderMetrics \<Rightarrow> bool" where
  "usage_consistent m = (pm_TotalTokens m = pm_PromptTokens m + pm_CompletionTokens m)"

text \<open>
  Sequences of cache operations, each with the time at which it runs. \<open>None\<close> is a
  \<^verbatim>\<open>Set\<close> that never returns.
\<close>

datatype cache_op = OpSet string bytes | OpGet string | OpDelete string | OpClear

fun cache_apply :: "int \<Rightarrow> cache_op \<Rightarrow> MemoryCache \<Rightarrow> MemoryCache option" where
  "cache_apply now (OpSet key val) c = cache_Set now c key val"
| "cache_apply now (OpGet key) c = Some (fst (cache_Get now c key))"
| "cache_apply now (OpDelete key) c = Some (cache_Delete c key)"
| "cache_apply now OpClear c = Some (cache_Clear c)"

fun cache_run :: "(int \<times> cache_op) list \<Rightarrow> MemoryCache \<Rightarrow> MemoryCache option" where
  "cache_run [] c = Some c"
| "cache_run ((now, op) # rest) c =
     (case cache_apply now op c of None \<Rightarrow> None | Some c' \<Rightarrow> cache_run rest c')"

text \<open>
  What a key can still draw at an instant: the content of its bucket after refill, or
  a full bucket when it has none yet. \<open>buckets_sized\<close> says that every per-key bucket
  has the configured capacity and rate.
\<close>

definition key_available :: "real \<Rightarrow> RateLimiter \<Rightarrow> string \<Rightarrow> real" where
  "key_available now rl key =
     (case map_of (limiters rl) key of
        None \<Rightarrow> real_of_int (rl_Requests (rlc_PerKey (rl_cfg rl)))
      | Some l \<Rightarrow> available now l)"

definition buckets_sized :: "RateLimiter \<Rightarrow> bool" where
  "buckets_sized rl =
     list_all (\<lambda>(k, l). lim_burst l = rl_Requests (rlc_PerKey (rl_cfg rl))
                      \<and> lim_limit l = lim_limit (new_bucket 0 (rlc_PerKey (rl_cfg rl))))
       (limiters rl)"

definition global_available :: "real \<Rightarrow> RateLimiter \<Rightarrow> real option" where
  "global_available now rl = map_option (available now) (global rl)"

text \<open>
  Scenario D of the spec: 5 requests per minute per key, no global limit; and a
  limiter with a global quota of 10 and a per-key quota of 1 per minute.
\<close>

definition scenario_limits :: RateLimitConfig where
  "scenario_limits =
     \<lparr>rlc_Enabled = True,
      rlc_Global = \<lparr>rl_Requests = 0, rl_Window = 0, rl_Tokens = 0\<rparr>,
      rlc_PerKey = \<lparr>rl_Requests = 5, rl_Window = 60000000000, rl_Tokens = 0\<rparr>\<rparr>"

definition shared_limits :: RateLimitConfig where
  "shared_limits =
     \<lparr>rlc_Enabled = True,
      rlc_Global = \<lparr>rl_Requests = 10, rl_Window = 60000000000, rl_Tokens = 0\<rparr>,
      rlc_PerKey = \<lparr>rl_Requests = 1, rl_Window = 60000000000, rl_Tokens = 0\<rparr>\<rparr>"

text \<open>
  Two configurations with a zero window: a per-key quota of 5 in no time, and a global
  quota of 2 in no time next to a per-key quota of 1 per minute.
\<close>

definition zero_window_limits :: RateLimitConfig where
  "zero_window_limits =
     \<lparr>rlc_Enabled = True,
      rlc_Global = \<lparr>rl_Requests = 0, rl_Window = 0, rl_Tokens = 0\<rparr>,
      rlc_PerKey = \<lparr>rl_Requests = 5, rl_Window = 0, rl_Tokens = 0\<rparr>\<rparr>"

definition zero_window_global :: RateLimitConfig where
  "zero_window_global =
     \<lparr>rlc_Enabled = True,
      rlc_Global = \<lparr>rl_Requests = 2, rl_Window = 0, rl_Tokens = 0\<rparr>,
      rlc_PerKey = \<lparr>rl_Requests = 1, rl_Window = 60000000000, rl_Tokens = 0\<rparr>\<rparr>"




fun request_body :: "Provider \<Rightarrow> ChatCompletionRequest \<Rightarrow> json option" where
  "request_body (OpenAI p) req = OpenAI_request_body req"
| "request_body (Anthropic q) req = Anthropic_request_body req"

text \<open>
  The representation invariant of the cache: the list and the map hold the same keys,
  each once, and every item is stored under its own key.
\<close>

definition cache_inv :: "MemoryCache \<Rightarrow> bool" where
  "cache_inv c =
     (distinct (lru c) \<and> distinct (map fst (items c)) \<and> set (lru c) = fst ` set (items c)
      \<and> list_all (\<lambda>(k, item). ci_key item = k) (items c))"

text \<open>
  A server whose cache, if it has one, keeps the invariant; and when the handler finds
  the response of a request in the cache: the request is not streaming, has not switched
  caching off, and a live entry is stored under its key.
\<close>

definition cache_consistent :: "Server \<Rightarrow> bool" where
  "cache_consistent s = (case srv_cache s of None \<Rightarrow> True | Some c \<Rightarrow> cache_inv c)"

definition cache_hit :: "server_env \<Rightarrow> Server \<Rightarrow> ChatCompletionRequest \<Rightarrow> bool" where
  "cache_hit se s req =
     (\<not> req_Stream req \<and> cache_requested req
      \<and> (case srv_cache s of
            None \<Rightarrow> False
          | Some c \<Rightarrow>
              (case map_of (items c) (generateCacheKey se req) of
                 None \<Rightarrow> False
               | Some item \<Rightarrow> t_lookup se \<le> ci_expiresAt item)))"

text \<open>
  The README's gateway with its cache on (512 MB, one hour), the request for the
  unknown model, the server after it has handled that request once, and the
  surroundings of a second request one second later.
\<close>

definition cached_server :: Server where
  "cached_server = readme_server\<lparr>srv_cache := Some (NewMemoryCache 512 hour)\<rparr>"

definition unknown_request :: ChatCompletionRequest where
  "unknown_request = scenario_request\<lparr>req_Model := ''unknown-model-xyz''\<rparr>"

definition warm_server :: Server where
  "warm_server =
     (case handleChatCompletion (scenario_server_env ok_env) cached_server (Inr unknown_request) of
        Some h \<Rightarrow> h_server h
      | None \<Rightarrow> cached_server)"

definition later_env :: server_env where
  "later_env =
     (scenario_server_env ok_env)
       \<lparr>t_start := 1000000000, t_lookup := 1000000000, t_since := 1250000000,
        t_stamp := 1250000000, t_collect := 1250000000, t_store := 1250000000\<rparr>"

section \<open>Extensions are never forwarded upstream\<close>

lemma those_concat_keys:
  "those ms = Some xs \<Longrightarrow> k \<in> fst ` set (concat xs) \<Longrightarrow> \<exists>m\<in>set ms. k \<in> member_keys m"
proof (induction ms arbitrary: xs)
  case Nil
  then show ?case by simp
next
  case (Cons m ms)
  from Cons.prems(1) obtain y ys where m: "m = Some y" and ys: "those ms = Some ys" and xs: "xs = y # ys"
    by (auto split: option.splits)
  from Cons.prems(2) xs have "k \<in> fst ` set y \<or> k \<in> fst ` set (concat ys)"
    by auto
  then show ?case
  proof
    assume "k \<in> fst ` set y"
    then show ?thesis by (simp add: m member_keys_def)
  next
    assume "k \<in> fst ` set (concat ys)"
    from Cons.IH [OF ys this] show ?thesis by auto
  qed
qed

lemma struct_object_keys:
  "k \<in> set (body_keys (struct_object ms)) \<Longrightarrow> \<exists>m\<in>set ms. k \<in> member_keys m"
proof (cases "those ms")
  case None
  assume "k \<in> set (body_keys (struct_object ms))"
  with None show ?thesis by (simp add: struct_object_def)
next
  case (Some xs)
  assume "k \<in> set (body_keys (struct_object ms))"
  with Some have "k \<in> fst ` set (concat xs)" by (simp add: struct_object_def)
  from those_concat_keys [OF Some this] show ?thesis .
qed

lemma member_keys_notin:
  "k' \<noteq> k \<Longrightarrow> k' \<notin> member_keys (always_string k s)"
  "k' \<noteq> k \<Longrightarrow> k' \<notin> member_keys (omitempty_string k s)"
  "k' \<noteq> k \<Longrightarrow> k' \<notin> member_keys (omitempty_bool k b)"
  "k' \<noteq> k \<Longrightarrow> k' \<notin> member_keys (omitempty_float_ptr k fp)"
  "k' \<noteq> k \<Longrightarrow> k' \<notin> member_keys (omitempty_int_ptr k ip)"
  "k' \<noteq> k \<Longrightarrow> k' \<notin> member_keys (omitempty_strings k xs)"
  "k' \<notin> member_keys (omitempty_gateway k None)"
  "k' \<noteq> k \<Longrightarrow> k' \<notin> member_keys (Some [(k, j)])"
  by (auto simp: member_keys_def always_string_def omitempty_string_def omitempty_bool_def
        omitempty_float_ptr_def omitempty_int_ptr_def omitempty_strings_def omitempty_gateway_def
        split: option.splits if_splits)

lemma openai_no_gateway_key:
  "req_XGateway r = None \<Longrightarrow> ''x-gateway'' \<notin> set (body_keys (marshal_ChatCompletionRequest r))"
proof
  assume n: "req_XGateway r = None"
    and "''x-gateway'' \<in> set (body_keys (marshal_ChatCompletionRequest r))"
  from struct_object_keys [OF this(2) [unfolded marshal_ChatCompletionRequest_def]]
  show False
    by (simp add: n member_keys_notin)
qed

lemma anthropic_no_gateway_key:
  "''x-gateway'' \<notin> set (body_keys (marshal_anthropicRequest r))"
proof
  assume "''x-gateway'' \<in> set (body_keys (marshal_anthropicRequest r))"
  from struct_object_keys [OF this [unfolded marshal_anthropicRequest_def]]
  show False
    by (simp add: member_keys_notin)
qed

lemma convertRequest_fields:
  "req_Model r1 = req_Model r2 \<Longrightarrow> req_Messages r1 = req_Messages r2 \<Longrightarrow>
   req_MaxTokens r1 = req_MaxTokens r2 \<Longrightarrow> req_Temperature r1 = req_Temperature r2 \<Longrightarrow>
   req_TopP r1 = req_TopP r2 \<Longrightarrow> convertRequest r1 = convertRequest r2"
  by (simp add: convertRequest_def)

lemma request_body_ext:
  "OpenAI_request_body (req\<lparr>req_XGateway := g\<rparr>) = OpenAI_request_body req"
  "OpenAI_stream_body (req\<lparr>req_XGateway := g\<rparr>) = OpenAI_stream_body req"
  "Anthropic_request_body (req\<lparr>req_XGateway := g\<rparr>) = Anthropic_request_body req"
  "Anthropic_stream_body (req\<lparr>req_XGateway := g\<rparr>) = Anthropic_stream_body req"
  by (simp_all add: OpenAI_request_body_def OpenAI_stream_body_def Anthropic_request_body_def
        Anthropic_stream_body_def convertRequest_def)

lemma request_body_keys:
  "''x-gateway'' \<notin> set (body_keys (OpenAI_request_body req))"
  "''x-gateway'' \<notin> set (body_keys (OpenAI_stream_body req))"
  "''x-gateway'' \<notin> set (body_keys (Anthropic_request_body req))"
  "''x-gateway'' \<notin> set (body_keys (Anthropic_stream_body req))"
  by (simp_all add: OpenAI_request_body_def OpenAI_stream_body_def Anthropic_request_body_def
        Anthropic_stream_body_def openai_no_gateway_key anthropic_no_gateway_key)

lemma ChatCompletion_ext:
  "ChatCompletion e prov (req\<lparr>req_XGateway := g\<rparr>) = ChatCompletion e prov req"
  by (cases prov)
     (simp_all add: OpenAI_ChatCompletion_def Anthropic_ChatCompletion_def request_body_ext
        cong: option.case_cong sum.case_cong prod.case_cong if_cong)

lemma ChatCompletionStream_ext:
  "ChatCompletionStream e prov (req\<lparr>req_XGateway := g\<rparr>) = ChatCompletionStream e prov req"
  by (cases prov)
     (simp_all add: OpenAI_ChatCompletionStream_def Anthropic_ChatCompletionStream_def request_body_ext)

lemma cr_sent_cases:
  "cr_sent (ChatCompletion e (OpenAI p) req) = None
   \<or> cr_sent (ChatCompletion e (OpenAI p) req) = OpenAI_request_body req"
  "cr_sent (ChatCompletion e (Anthropic q) req) = None
   \<or> cr_sent (ChatCompletion e (Anthropic q) req) = Anthropic_request_body req"
  by (auto simp: OpenAI_ChatCompletion_def Anthropic_ChatCompletion_def call_failed_def Let_def
        split: option.splits)

lemma sr_sent_cases:
  "sr_sent (ChatCompletionStream e (OpenAI p) req) = None
   \<or> sr_sent (ChatCompletionStream e (OpenAI p) req) = OpenAI_stream_body req"
  "sr_sent (ChatCompletionStream e (Anthropic q) req) = None
   \<or> sr_sent (ChatCompletionStream e (Anthropic q) req) = Anthropic_stream_body req"
  by (auto simp: OpenAI_ChatCompletionStream_def Anthropic_ChatCompletionStream_def stream_failed_def
        split: option.splits)

lemma sent_keys:
  "''x-gateway'' \<notin> set (body_keys (cr_sent (ChatCompletion e prov req)))"
  "''x-gateway'' \<notin> set (body_keys (sr_sent (ChatCompletionStream e prov req)))"
proof -
  show "''x-gateway'' \<notin> set (body_keys (cr_sent (ChatCompletion e prov req)))"
  proof (cases prov)
    case (OpenAI p)
    with cr_sent_cases(1) [of e p req] request_body_keys(1) [of req] show ?thesis by auto
  next
    case (Anthropic q)
    with cr_sent_cases(2) [of e q req] request_body_keys(3) [of req] show ?thesis by auto
  qed
  show "''x-gateway'' \<notin> set (body_keys (sr_sent (ChatCompletionStream e prov req)))"
  proof (cases prov)
    case (OpenAI p)
    with sr_sent_cases(1) [of e p req] request_body_keys(2) [of req] show ?thesis by auto
  next
    case (Anthropic q)
    with sr_sent_cases(2) [of e q req] request_body_keys(4) [of req] show ?thesis by auto
  qed
qed

text \<open>
  Claim C7. The body a provider client sends upstream never has an \<^verbatim>\<open>x-gateway\<close>
  member, on the non-streaming and on the streaming path of both clients, and a call
  does not depend on the extensions at all: replacing the extensions of a request by
  any others (or none) leaves the whole result of \<^verbatim>\<open>ChatCompletion\<close> and of
  \<^verbatim>\<open>ChatCompletionStream\<close> unchanged, the body sent included. The Anthropic
  translation reads only model, messages (which hold the system prompt), maxTokens,
  temperature and topP: two requests that agree on these translate alike.
\<close>

theorem upstream_body_excludes_extensions:
  "ChatCompletion e prov (req\<lparr>req_XGateway := g\<rparr>) = ChatCompletion e prov req
   \<and> ChatCompletionStream e prov (req\<lparr>req_XGateway := g\<rparr>) = ChatCompletionStream e prov req
   \<and> ''x-gateway'' \<notin> set (body_keys (cr_sent (ChatCompletion e prov req)))
   \<and> ''x-gateway'' \<notin> set (body_keys (sr_sent (ChatCompletionStream e prov req)))
   \<and> (req_Model r1 = req_Model r2 \<and> req_Messages r1 = req_Messages r2
        \<and> req_MaxTokens r1 = req_MaxTokens r2 \<and> req_Temperature r1 = req_Temperature r2
        \<and> req_TopP r1 = req_TopP r2
      \<longrightarrow> convertRequest r1 = convertRequest r2)"
  using ChatCompletion_ext [where e = e and prov = prov and req = req and g = g]
    ChatCompletionStream_ext [where e = e and prov = prov and req = req and g = g]
    sent_keys [where e = e and prov = prov and req = req]
    convertRequest_fields [where ?r1.0 = r1 and ?r2.0 = r2]
  by blast

theorem upstream_body_excludes_extensions_witness:
  "req_Model (scenario_request\<lparr>req_User := ''u_123'', req_XGateway := Some scenario_extensions\<rparr>)
     = req_Model scenario_request
   \<and> convertRequest (scenario_request\<lparr>req_User := ''u_123'', req_XGateway := Some scenario_extensions\<rparr>)
     = convertRequest scenario_request
   \<and> ChatCompletion flaky_env (OpenAI scenario_openai)
       (scenario_request\<lparr>req_XGateway := Some scenario_extensions\<rparr>)
     = ChatCompletion flaky_env (OpenAI scenario_openai) scenario_request"
  using upstream_body_excludes_extensions
    [where e = flaky_env and prov = "OpenAI scenario_openai" and req = scenario_request
       and g = "Some scenario_extensions"
       and ?r1.0 = "scenario_request\<lparr>req_User := ''u_123'', req_XGateway := Some scenario_extensions\<rparr>"
       and ?r2.0 = scenario_request]
  by simp

section \<open>The cache key\<close>

lemma marshal_Message_inj: "marshal_Message a = marshal_Message b \<Longrightarrow> a = b"
  by (cases a; cases b) (auto simp: marshal_Message_def split: if_splits)

lemma marshal_Messages_inj: "marshal_Messages a = marshal_Messages b \<Longrightarrow> a = b"
proof -
  have "inj marshal_Message" by (rule injI) (rule marshal_Message_inj)
  then have "inj (map marshal_Message)" by simp
  then show "marshal_Messages a = marshal_Messages b \<Longrightarrow> a = b"
    by (auto simp: marshal_Messages_def inj_eq split: option.splits)
qed

lemma cache_key_fields:
  "req_Model r1 = req_Model r2 \<Longrightarrow> req_Messages r1 = req_Messages r2 \<Longrightarrow>
   req_Temperature r1 = req_Temperature r2 \<Longrightarrow> req_MaxTokens r1 = req_MaxTokens r2 \<Longrightarrow>
   generateCacheKey se r1 = generateCacheKey se r2"
  by (simp add: generateCacheKey_def cache_key_json_def)

lemma cache_key_json_inj:
  assumes "cache_key_json r1 = cache_key_json r2" and "cache_key_json r1 \<noteq> None"
  shows "req_Model r1 = req_Model r2 \<and> req_Messages r1 = req_Messages r2
         \<and> req_Temperature r1 = req_Temperature r2 \<and> req_MaxTokens r1 = req_MaxTokens r2"
  using assms marshal_Messages_inj [of "req_Messages r1" "req_Messages r2"]
  by (auto simp: cache_key_json_def struct_object_def always_string_def
        split: option.splits if_splits intro: signed_word_eqI)

text \<open>
  Claim C4. Two chat-completion requests that agree on model, messages, temperature
  and maxTokens get the same cache key from \<^verbatim>\<open>generateCacheKey\<close>, whatever their
  stream flag, user, top_p, stop sequences, other sampling fields and extensions are,
  and whatever the digest function is. What is digested is exactly these four fields:
  two requests whose encoded key structs coincide (and were encoded without error)
  agree on all four.
\<close>

theorem cache_key_ignores_other_fields:
  "(req_Model r1 = req_Model r2 \<and> req_Messages r1 = req_Messages r2
      \<and> req_Temperature r1 = req_Temperature r2 \<and> req_MaxTokens r1 = req_MaxTokens r2
    \<longrightarrow> generateCacheKey se r1 = generateCacheKey se r2)
   \<and> (cache_key_json r1 = cache_key_json r2 \<and> cache_key_json r1 \<noteq> None
      \<longrightarrow> req_Model r1 = req_Model r2 \<and> req_Messages r1 = req_Messages r2
          \<and> req_Temperature r1 = req_Temperature r2 \<and> req_MaxTokens r1 = req_MaxTokens r2)"
  using cache_key_fields [of r1 r2 se] cache_key_json_inj [of r1 r2]
  by blast

theorem cache_key_ignores_other_fields_witness:
  "cache_key_json scenario_request \<noteq> None
   \<and> (\<forall>se. generateCacheKey se
          (scenario_request\<lparr>req_TopP := Some 0x3FF0000000000000, req_Stream := True,
             req_Stop := [''END''], req_User := ''u_123'', req_XGateway := Some scenario_extensions\<rparr>)
        = generateCacheKey se scenario_request)"
proof
  show "cache_key_json scenario_request \<noteq> None"
    by (simp add: cache_key_json_def scenario_request_def struct_object_def always_string_def
        float64_finite_def)
  show "\<forall>se. generateCacheKey se
          (scenario_request\<lparr>req_TopP := Some 0x3FF0000000000000, req_Stream := True,
             req_Stop := [''END''], req_User := ''u_123'', req_XGateway := Some scenario_extensions\<rparr>)
        = generateCacheKey se scenario_request"
  proof
    fix se
    from cache_key_ignores_other_fields [where se = se and ?r2.0 = scenario_request
        and ?r1.0 = "scenario_request\<lparr>req_TopP := Some 0x3FF0000000000000, req_Stream := True,
               req_Stop := [''END''], req_User := ''u_123'', req_XGateway := Some scenario_extensions\<rparr>"]
    show "generateCacheKey se
            (scenario_request\<lparr>req_TopP := Some 0x3FF0000000000000, req_Stream := True,
               req_Stop := [''END''], req_User := ''u_123'', req_XGateway := Some scenario_extensions\<rparr>)
          = generateCacheKey se scenario_request"
      by simp
  qed
qed

section \<open>Health checks\<close>

text \<open>
  The claim that a probe answered with HTTP 400 is reported as an error fails for the
  Anthropic client: its \<^verbatim>\<open>HealthCheck\<close> accepts 400 next to 200.
\<close>

theorem health_check_400_counterexample:
  "upstream bad_request_env 0 = DoResponse 400 ''invalid_request_error''
   \<and> snd (HealthCheck bad_request_env (Anthropic scenario_anthropic)) = None"
  by (simp add: bad_request_env_def Anthropic_HealthCheck_def)

text \<open>
  Claim C8, amended. \<^verbatim>\<open>HealthCheck\<close> leaves the provider as it was. The OpenAI-shaped
  client reports an error exactly when the probe request cannot be built, the
  transport fails, or the status is not 200; the Anthropic client reports an error
  exactly when the probe request cannot be built, the transport fails, or the status is
  neither 200 nor 400.
\<close>

theorem health_check_errors:
  "fst (HealthCheck e prov) = prov
   \<and> (snd (HealthCheck e (OpenAI p)) \<noteq> None \<longleftrightarrow>
        \<not> url_valid e (oa_baseURL p @ ''/models'') \<or> probe_rejected (upstream e 0) {200})
   \<and> (snd (HealthCheck e (Anthropic q)) \<noteq> None \<longleftrightarrow>
        \<not> url_valid e (an_baseURL q @ ''/messages'') \<or> probe_rejected (upstream e 0) {200, 400})"
  by (cases prov)
     (auto simp: OpenAI_HealthCheck_def Anthropic_HealthCheck_def probe_rejected_def
        split: http_result.splits)

theorem health_check_errors_witness:
  "snd (HealthCheck bad_request_env (OpenAI scenario_openai)) \<noteq> None
   \<and> snd (HealthCheck bad_request_env (Anthropic scenario_anthropic)) = None
   \<and> fst (HealthCheck bad_request_env (Anthropic scenario_anthropic)) = Anthropic scenario_anthropic"
  using health_check_errors [where e = bad_request_env and prov = "Anthropic scenario_anthropic"
      and p = scenario_openai and q = scenario_anthropic]
  by (simp add: bad_request_env_def probe_rejected_def)

section \<open>Retry policy\<close>

declare retry_loop.simps [simp del]





lemma doWithRetry_immediate:
  "0 \<le> m \<Longrightarrow> up 0 = DoResponse st b \<Longrightarrow> st \<noteq> 429 \<Longrightarrow> st < 500 \<Longrightarrow>
   doWithRetry m up = \<lparr>rr_result = Inr (st, b), rr_attempts = 1, rr_slept = 0\<rparr>"
  by (simp add: doWithRetry_def retry_loop.simps [of up _ 0])













section \<open>The README's gateway\<close>

lemmas marshal_defs =
  marshal_ChatCompletionRequest_def marshal_anthropicRequest_def struct_object_def always_string_def
  omitempty_float_ptr_def omitempty_int_ptr_def omitempty_bool_def omitempty_strings_def
  omitempty_string_def omitempty_gateway_def float64_finite_def marshal_Messages_def
  marshal_Message_def marshal_anthropicMessage_def

lemma readme_registry:
  "NewRegistry readme_config =
     \<lparr>providers = [(''openai'', OpenAI scenario_openai), (''anthropic'', Anthropic scenario_anthropic)],
      modelMapping = [(''gpt-4'', ''openai''), (''gpt-4-turbo'', ''openai''), (''gpt-3.5-turbo'', ''openai''),
                      (''claude-3-opus'', ''anthropic''), (''claude-3-sonnet'', ''anthropic''),
                      (''claude-3-haiku'', ''anthropic'')],
      fallbackChain = [''openai'', ''anthropic''],
      defaultProvider = ''openai''\<rparr>"
  by (simp add: readme_config_def NewRegistry_def register_provider_def createProvider_def
      scenario_openai_def scenario_anthropic_def)

lemma unknown_get: "GetForModel (NewRegistry readme_config) ''unknown-model-xyz'' = Inr (OpenAI scenario_openai)"
  by (simp add: readme_registry GetForModel_def mapped_provider_def supporting_provider_def
      default_provider_def OpenAI_SupportsModel_def Anthropic_SupportsModel_def shortNames_def
      scenario_openai_def scenario_anthropic_def NewOpenAIProvider_def NewAnthropicProvider_def)


lemma scenario_body:
  "OpenAI_request_body (scenario_request\<lparr>req_Model := mdl\<rparr>) =
     Some (JObject [(''model'', JString mdl),
                    (''messages'', JArray [JObject [(''role'', JString ''user''), (''content'', JString ''hi'')]]),
                    (''temperature'', JFloat 0x3FE0000000000000)])"
  by (simp add: OpenAI_request_body_def scenario_request_def marshal_defs)

lemma openai_call_ok:
  "OpenAI_ChatCompletion ok_env scenario_openai (scenario_request\<lparr>req_Model := mdl\<rparr>) =
     \<lparr>cr_result = Inr scenario_response,
      cr_sent = OpenAI_request_body (scenario_request\<lparr>req_Model := mdl\<rparr>),
      cr_attempts = 1, cr_slept = 0\<rparr>"
  by (simp add: OpenAI_ChatCompletion_def scenario_body ok_env_def
      doWithRetry_immediate [of _ _ 200 "''ok''"] scenario_openai_def NewOpenAIProvider_def)

lemma scenario_names:
  "oa_name scenario_openai = ''openai''"
  "an_name scenario_anthropic = ''anthropic''"
  by (simp_all add: scenario_openai_def scenario_anthropic_def NewOpenAIProvider_def
      NewAnthropicProvider_def)

lemma scenario_servers:
  "srv_cache readme_server = None" "srv_registry readme_server = NewRegistry readme_config"
  "srv_metrics readme_server = NewCollector"
  by (simp_all add: readme_server_def)

lemma se_fields:
  "net (scenario_server_env e) = e"
  "marshalResponse (scenario_server_env e) r = Inr ''{}''"
  "format_cost (scenario_server_env e) c = ''0.000000''"
  "t_since (scenario_server_env e) = 250000000"
  "t_start (scenario_server_env e) = 0"
  by (simp_all add: scenario_server_env_def)

lemma unknown_handled:
  "handleChatCompletion (scenario_server_env ok_env) readme_server
         (Inr (scenario_request\<lparr>req_Model := ''unknown-model-xyz''\<rparr>))
       = dispatch (scenario_server_env ok_env) readme_server (OpenAI scenario_openai)
           (scenario_request\<lparr>req_Model := ''unknown-model-xyz''\<rparr>)"
  by (simp add: handleChatCompletion_def unknown_get scenario_servers scenario_request_def)

lemma handle_uncached:
  "GetForModel (srv_registry s) (req_Model req) = Inr prov \<Longrightarrow> srv_cache s = None \<Longrightarrow>
   \<not> req_Stream req \<Longrightarrow> handleChatCompletion se s (Inr req) = dispatch se s prov req"
  by (simp add: handleChatCompletion_def)

section \<open>Usage records\<close>

lemma known_get: "GetForModel (NewRegistry readme_config) ''gpt-4'' = Inr (OpenAI scenario_openai)"
  by (simp add: readme_registry GetForModel_def mapped_provider_def)

lemma scenario_handled:
  "handleChatCompletion (scenario_server_env e) readme_server (Inr scenario_request)
     = dispatch (scenario_server_env e) readme_server (OpenAI scenario_openai) scenario_request"
  using handle_uncached [of readme_server scenario_request "OpenAI scenario_openai" "scenario_server_env e"]
  by (simp add: scenario_servers known_get scenario_request_def)

lemma scenario_request_self: "scenario_request\<lparr>req_Model := ''gpt-4''\<rparr> = scenario_request"
  by (simp add: scenario_request_def)

lemma openai_call_unauthorized:
  "OpenAI_ChatCompletion unauthorized_env scenario_openai scenario_request =
     \<lparr>cr_result = Inl (ProviderErr \<lparr>pe_Provider = ''openai'', pe_StatusCode = 401,
                                     pe_Message = ''invalid api key'', pe_Type = ''api_error''\<rparr>),
      cr_sent = OpenAI_request_body scenario_request,
      cr_attempts = 1, cr_slept = 0\<rparr>"
  using scenario_body [of "''gpt-4''"]
  by (simp add: OpenAI_ChatCompletion_def scenario_request_self unauthorized_env_def ok_env_def
      doWithRetry_immediate [of _ _ 401 "''invalid api key''"] scenario_openai_def NewOpenAIProvider_def)

text \<open>
  Claim C2 says that one usage record is written for a non-streaming request that
  reaches dispatch, whether the provider call succeeds or fails. On the code the failing
  branch returns before \<^verbatim>\<open>RecordRequest\<close>: with the README's gateway, a request for
  \<^verbatim>\<open>gpt-4\<close> and an upstream that answers 401, the provider is called once, the
  caller gets 401, and nothing is recorded.
\<close>

theorem failed_call_records_nothing:
  "calls_of (handleChatCompletion (scenario_server_env unauthorized_env) readme_server
      (Inr scenario_request)) = [''openai'']
   \<and> status_of (handleChatCompletion (scenario_server_env unauthorized_env) readme_server
      (Inr scenario_request)) = Some 401
   \<and> recorded_of (handleChatCompletion (scenario_server_env unauthorized_env) readme_server
      (Inr scenario_request)) = []"
  unfolding scenario_handled
  by (simp add: dispatch_def se_fields openai_call_unauthorized scenario_names calls_of_def
      status_of_def recorded_of_def provider_failure_def writeError_def)

lemma openai_call_skewed:
  "OpenAI_ChatCompletion skewed_env scenario_openai scenario_request =
     \<lparr>cr_result = Inr (scenario_response
                \<lparr>resp_Usage := \<lparr>PromptTokens = 1, CompletionTokens = 1, TotalTokens = 5\<rparr>\<rparr>),
      cr_sent = OpenAI_request_body scenario_request,
      cr_attempts = 1, cr_slept = 0\<rparr>"
  using scenario_body [of "''gpt-4''"]
  by (simp add: OpenAI_ChatCompletion_def scenario_request_self skewed_env_def ok_env_def
      doWithRetry_immediate [of _ _ 200 "''ok''"] scenario_openai_def NewOpenAIProvider_def)

text \<open>
  The claim that every recorded usage has \<open>total = prompt + completion\<close> whichever
  provider answered fails for the OpenAI-shaped client, which hands on the usage object
  it decoded: an upstream answer with 1 prompt token, 1 completion token and
  \<^verbatim>\<open>total_tokens\<close> 5 is recorded as it came.
\<close>

theorem upstream_total_recorded_counterexample:
  "map pm_PromptTokens (recorded_of (handleChatCompletion (scenario_server_env skewed_env)
      readme_server (Inr scenario_request))) = [1]
   \<and> map pm_CompletionTokens (recorded_of (handleChatCompletion (scenario_server_env skewed_env)
      readme_server (Inr scenario_request))) = [1]
   \<and> map pm_TotalTokens (recorded_of (handleChatCompletion (scenario_server_env skewed_env)
      readme_server (Inr scenario_request))) = [5]
   \<and> \<not> list_all usage_consistent (recorded_of (handleChatCompletion (scenario_server_env skewed_env)
      readme_server (Inr scenario_request)))"
  unfolding scenario_handled
  by (simp add: dispatch_def se_fields openai_call_skewed scenario_names scenario_servers Let_def
      recorded_of_def completion_metrics_def usage_consistent_def)


lemma convertResponse_usage:
  "TotalTokens (resp_Usage (convertResponse e ar mdl)) =
     PromptTokens (resp_Usage (convertResponse e ar mdl))
     + CompletionTokens (resp_Usage (convertResponse e ar mdl))"
  by (simp add: convertResponse_def Let_def)

lemma dispatch_recorded:
  "dispatch se s prov req = Some h \<Longrightarrow>
   h_recorded h = (case cr_result (ChatCompletion (net se) prov req) of
                     Inl err \<Rightarrow> []
                   | Inr resp \<Rightarrow> [completion_metrics se prov req resp])"
  by (auto simp: dispatch_def Let_def split: sum.splits option.splits if_splits)

lemma anthropic_result:
  "cr_result (Anthropic_ChatCompletion e q req) = Inr resp \<Longrightarrow>
   \<exists>ar. resp = convertResponse e ar (req_Model req)"
  by (auto simp: Anthropic_ChatCompletion_def call_failed_def Let_def
        split: option.splits if_splits sum.splits)

lemma anthropic_dispatch_consistent:
  assumes "dispatch se s (Anthropic q) req = Some h"
  shows "list_all usage_consistent (h_recorded h)"
proof (cases "cr_result (ChatCompletion (net se) (Anthropic q) req)")
  case (Inl err)
  with dispatch_recorded [OF assms] show ?thesis by simp
next
  case (Inr resp)
  then obtain ar where "resp = convertResponse (net se) ar (req_Model req)"
    using anthropic_result [of "net se" q req resp] by auto
  with Inr dispatch_recorded [OF assms] convertResponse_usage [of "net se" ar "req_Model req"]
  show ?thesis
    by (simp add: usage_consistent_def completion_metrics_def)
qed

text \<open>
  Claim C5, amended. The Anthropic translation always produces a usage whose total is
  input plus output. The record the dispatcher writes for a completed non-streaming
  request carries the three token counts of the provider's response unchanged, and it
  is the only record written; so every record of a response translated by the Anthropic
  client has \<open>total = prompt + completion\<close>, while a record of an OpenAI-shaped
  provider has whatever totals the upstream sent.
\<close>

theorem recorded_usage_copies_response:
  "TotalTokens (resp_Usage (convertResponse e ar mdl)) =
     PromptTokens (resp_Usage (convertResponse e ar mdl))
     + CompletionTokens (resp_Usage (convertResponse e ar mdl))
   \<and> pm_PromptTokens (completion_metrics se prov req resp) = PromptTokens (resp_Usage resp)
   \<and> pm_CompletionTokens (completion_metrics se prov req resp) = CompletionTokens (resp_Usage resp)
   \<and> pm_TotalTokens (completion_metrics se prov req resp) = TotalTokens (resp_Usage resp)
   \<and> (dispatch se s prov req = Some h \<longrightarrow>
        h_recorded h = (case cr_result (ChatCompletion (net se) prov req) of
                          Inl err \<Rightarrow> []
                        | Inr resp \<Rightarrow> [completion_metrics se prov req resp]))
   \<and> (dispatch se s (Anthropic q) req = Some h' \<longrightarrow> list_all usage_consistent (h_recorded h'))"
  using convertResponse_usage [of e ar mdl] dispatch_recorded [of se s prov req h]
    anthropic_dispatch_consistent [of se s q req h']
  by (simp add: completion_metrics_def)

lemma claude_get: "GetForModel (NewRegistry readme_config) ''claude-3-haiku'' = Inr (Anthropic scenario_anthropic)"
  by (simp add: readme_registry GetForModel_def mapped_provider_def)

lemma claude_body:
  "Anthropic_request_body (scenario_request\<lparr>req_Model := ''claude-3-haiku''\<rparr>) =
     Some (JObject [(''model'', JString ''claude-3-haiku-20240307''),
                    (''messages'', JArray [JObject [(''role'', JString ''user''), (''content'', JString ''hi'')]]),
                    (''max_tokens'', JInt 4096),
                    (''temperature'', JFloat 0x3FE0000000000000)])"
  by (simp add: Anthropic_request_body_def convertRequest_def scenario_request_def marshal_defs
      mapModel_def modelMap_def)

lemma claude_call:
  "cr_result (Anthropic_ChatCompletion claude_env scenario_anthropic
       (scenario_request\<lparr>req_Model := ''claude-3-haiku''\<rparr>)) =
     Inr (convertResponse claude_env
        \<lparr>an_ID = ''msg_1'', an_Type = ''message'', an_Role = ''assistant'',
         an_Content = [\<lparr>ac_Type = ''text'', ac_Text = ''hello''\<rparr>],
         an_Model = ''claude-3-haiku-20240307'', an_StopReason = ''end_turn'',
         an_StopSequence = None,
         an_Usage = \<lparr>InputTokens = 8, OutputTokens = 2\<rparr>\<rparr> ''claude-3-haiku'')"
  by (simp add: Anthropic_ChatCompletion_def claude_body claude_env_def ok_env_def
      doWithRetry_immediate [of _ _ 200 "''ok''"] scenario_anthropic_def NewAnthropicProvider_def)

lemma claude_dispatched:
  "\<exists>h. dispatch (scenario_server_env claude_env) readme_server (Anthropic scenario_anthropic)
         (scenario_request\<lparr>req_Model := ''claude-3-haiku''\<rparr>) = Some h"
  by (simp add: dispatch_def se_fields claude_call scenario_servers Let_def)

theorem recorded_usage_copies_response_witness:
  "map pm_TotalTokens (recorded_of (dispatch (scenario_server_env claude_env) readme_server
      (Anthropic scenario_anthropic) (scenario_request\<lparr>req_Model := ''claude-3-haiku''\<rparr>))) = [10]
   \<and> list_all usage_consistent (recorded_of (dispatch (scenario_server_env claude_env) readme_server
      (Anthropic scenario_anthropic) (scenario_request\<lparr>req_Model := ''claude-3-haiku''\<rparr>)))"
proof -
  from claude_dispatched obtain h where
    h: "dispatch (scenario_server_env claude_env) readme_server (Anthropic scenario_anthropic)
          (scenario_request\<lparr>req_Model := ''claude-3-haiku''\<rparr>) = Some h"
    by blast
  from recorded_usage_copies_response [where se = "scenario_server_env claude_env"
      and s = readme_server and prov = "Anthropic scenario_anthropic" and q = scenario_anthropic
      and req = "scenario_request\<lparr>req_Model := ''claude-3-haiku''\<rparr>" and h = h and h' = h] h
  show ?thesis
    by (auto simp: recorded_of_def se_fields claude_call completion_metrics_def convertResponse_def)
qed



section \<open>The byte bound of the cache\<close>

lemma evict_loop_done:
  "\<not> (currentSize c + n > maxSize c \<and> length (lru c) > 0) \<Longrightarrow> evict_loop c n = Some c"
  by (subst evict_loop.simps) auto

lemma one_megabyte: "NewMemoryCache 1 t = \<lparr>maxSize = 1048576, ttl = t, items = [], lru = [], hits = 0, misses = 0\<rparr>"
  by (simp add: NewMemoryCache_def)

text \<open>
  Claim C3 says that after every cache operation the stored values take at most
  \<^verbatim>\<open>maxSize\<close> bytes, also when \<^verbatim>\<open>Set\<close> meets an existing key or a value larger than
  \<^verbatim>\<open>maxSize\<close>. On the code, in a 1 MiB cache: storing 600000 bytes under \<^verbatim>\<open>a\<close>,
  400000 under \<^verbatim>\<open>b\<close> and then 700000 under \<^verbatim>\<open>a\<close> again leaves 1100000 bytes,
  because the existing-key branch of \<^verbatim>\<open>Set\<close> returns before the eviction loop; and
  storing one value of 1048577 bytes in the empty cache leaves 1048577 bytes, because
  the loop stops at an empty list and the value is inserted all the same.
\<close>

theorem cache_bound_exceeded:
  "maxSize (NewMemoryCache 1 hour) = 1048576
   \<and> map_option currentSize
       (cache_run [(0, OpSet ''a'' (replicate 600000 (CHR ''x''))),
                   (1, OpSet ''b'' (replicate 400000 (CHR ''x''))),
                   (2, OpSet ''a'' (replicate 700000 (CHR ''x'')))]
          (NewMemoryCache 1 hour)) = Some 1100000
   \<and> map_option currentSize
       (cache_run [(0, OpSet ''c'' (replicate 1048577 (CHR ''x'')))] (NewMemoryCache 1 hour))
     = Some 1048577"
  by (simp add: one_megabyte cache_Set_def evict_loop_done currentSize_def MoveToFront_def)



section \<open>Rate limiting\<close>

lemma tokensFromDuration_zero [simp]: "tokensFromDuration r 0 = 0"
  by (cases r) (simp_all add: tokensFromDuration_def)

lemma limiter_Allow_ok:
  "lim_limit l \<noteq> PosInf \<Longrightarrow> snd (limiter_Allow now l) \<longleftrightarrow> 1 \<le> available now l"
  by (simp add: limiter_Allow_def Let_def)

lemma limiter_Allow_tokens:
  "lim_limit l \<noteq> PosInf \<Longrightarrow>
   lim_tokens (fst (limiter_Allow now l)) = available now l - (if snd (limiter_Allow now l) then 1 else 0)"
  by (simp add: limiter_Allow_def Let_def)

lemma limiter_Allow_fields:
  "lim_burst (fst (limiter_Allow now l)) = lim_burst l"
  "lim_limit (fst (limiter_Allow now l)) = lim_limit l"
  by (simp_all add: limiter_Allow_def Let_def)

lemma limiter_Allow_last:
  "lim_limit l \<noteq> PosInf \<Longrightarrow> lim_last (fst (limiter_Allow now l)) = now"
  by (simp add: limiter_Allow_def Let_def)

lemma limiter_Allow_unbounded: "lim_limit l = PosInf \<Longrightarrow> limiter_Allow now l = (l, True)"
  by (simp add: limiter_Allow_def)

lemma available_le_burst: "available now l \<le> real_of_int (lim_burst l)"
  by (simp add: available_def)

lemma available_after:
  assumes "lim_limit l \<noteq> PosInf"
  shows "available now (fst (limiter_Allow now l)) =
           available now l - (if snd (limiter_Allow now l) then 1 else 0)"
proof -
  have "available now (fst (limiter_Allow now l)) =
          min (real_of_int (lim_burst l)) (lim_tokens (fst (limiter_Allow now l)))"
    by (simp add: available_def limiter_Allow_fields limiter_Allow_last [OF assms])
  also have "\<dots> = lim_tokens (fst (limiter_Allow now l))"
    using available_le_burst [of now l] by (simp add: limiter_Allow_tokens [OF assms])
  finally show ?thesis by (simp add: limiter_Allow_tokens [OF assms])
qed

lemma new_bucket_fields:
  "lim_burst (new_bucket now q) = rl_Requests q"
  "lim_limit (new_bucket now q) = float_div (real_of_int (rl_Requests q)) (Seconds (rl_Window q))"
  by (simp_all add: new_bucket_def NewLimiter_def)

lemma new_bucket_finite: "rl_Window q \<noteq> 0 \<Longrightarrow> lim_limit (new_bucket now q) \<noteq> PosInf"
  by (simp add: new_bucket_def NewLimiter_def float_div_def Seconds_def)

lemma available_new_bucket: "available now (new_bucket now q) = real_of_int (rl_Requests q)"
  by (simp add: available_def new_bucket_def NewLimiter_def)

lemma map_of_update: "map_of (AList.update k v al) k' = (if k' = k then Some v else map_of al k')"
  by (simp add: update_conv')

lemma map_of_write_through:
  "map_of (write_through key l al) k =
     (if k = key then map_option (\<lambda>v. l) (map_of al key) else map_of al k)"
  by (induction al) (auto simp: write_through_def)

lemma list_all_update:
  "list_all P al \<Longrightarrow> P (k, v) \<Longrightarrow> list_all P (AList.update k v al)"
  by (induction al) auto

lemma list_all_write_through:
  "list_all P al \<Longrightarrow> P (key, l) \<Longrightarrow> list_all P (write_through key l al)"
  by (induction al) (auto simp: write_through_def)

lemma per_key_Allow_alt:
  "per_key_Allow now rl key =
     (case map_of (limiters rl) key of
        Some l \<Rightarrow> (rl\<lparr>limiters := write_through key (fst (limiter_Allow now l)) (limiters rl)\<rparr>,
                   snd (limiter_Allow now l))
      | None \<Rightarrow>
          (rl\<lparr>limiters := write_through key
                  (fst (limiter_Allow now (new_bucket now (rlc_PerKey (rl_cfg rl)))))
                  (AList.update key (new_bucket now (rlc_PerKey (rl_cfg rl))) (limiters rl))\<rparr>,
           snd (limiter_Allow now (new_bucket now (rlc_PerKey (rl_cfg rl))))))"
  by (simp add: per_key_Allow_def getLimiter_def Let_def split: option.splits prod.splits)

lemma per_key_Allow_frame:
  "rl_cfg (fst (per_key_Allow now rl key)) = rl_cfg rl"
  "global (fst (per_key_Allow now rl key)) = global rl"
  by (simp_all add: per_key_Allow_alt split: option.splits)

lemma sized_bucket:
  assumes "buckets_sized rl" and "map_of (limiters rl) key = Some l"
  shows "lim_burst l = rl_Requests (rlc_PerKey (rl_cfg rl))"
    and "lim_limit l = lim_limit (new_bucket 0 (rlc_PerKey (rl_cfg rl)))"
proof -
  from assms(2) have "(key, l) \<in> set (limiters rl)" by (rule map_of_SomeD)
  with assms(1) show "lim_burst l = rl_Requests (rlc_PerKey (rl_cfg rl))"
    and "lim_limit l = lim_limit (new_bucket 0 (rlc_PerKey (rl_cfg rl)))"
    by (auto simp: buckets_sized_def list_all_iff)
qed

lemma per_key_Allow_step:
  assumes "buckets_sized rl" and "rl_Window (rlc_PerKey (rl_cfg rl)) \<noteq> 0"
  shows "key_available now (fst (per_key_Allow now rl key)) key =
           key_available now rl key - (if snd (per_key_Allow now rl key) then 1 else 0)
         \<and> (snd (per_key_Allow now rl key) \<longleftrightarrow> 1 \<le> key_available now rl key)"
proof (cases "map_of (limiters rl) key")
  case None
  note f = new_bucket_finite [OF assms(2), of now]
  from None show ?thesis
    by (simp add: per_key_Allow_alt key_available_def map_of_write_through map_of_update
        available_after [OF f] available_new_bucket limiter_Allow_ok [OF f])
next
  case (Some l)
  from sized_bucket(2) [OF assms(1) Some] new_bucket_finite [OF assms(2), of 0]
  have f: "lim_limit l \<noteq> PosInf" by simp
  from Some show ?thesis
    by (simp add: per_key_Allow_alt key_available_def map_of_write_through
        available_after [OF f] limiter_Allow_ok [OF f])
qed

lemma Allow_alt:
  "Allow now rl key =
     (case global rl of
        None \<Rightarrow> per_key_Allow now rl key
      | Some g \<Rightarrow>
          if \<not> snd (limiter_Allow now g) then (rl\<lparr>global := Some (fst (limiter_Allow now g))\<rparr>, False)
          else per_key_Allow now (rl\<lparr>global := Some (fst (limiter_Allow now g))\<rparr>) key)"
  by (simp add: Allow_def split: option.splits prod.splits)

lemma key_available_global [simp]:
  "key_available now (rl\<lparr>global := g\<rparr>) key = key_available now rl key"
  by (simp add: key_available_def split: option.splits)

lemma buckets_sized_global [simp]: "buckets_sized (rl\<lparr>global := g\<rparr>) = buckets_sized rl"
  by (simp add: buckets_sized_def)

lemma Allow_cfg: "rl_cfg (fst (Allow now rl key)) = rl_cfg rl"
  by (simp add: Allow_alt per_key_Allow_frame split: option.splits)

lemma Allow_step:
  assumes "buckets_sized rl" and "rl_Window (rlc_PerKey (rl_cfg rl)) \<noteq> 0"
  shows "key_available now (fst (Allow now rl key)) key =
           key_available now rl key - (if snd (Allow now rl key) then 1 else 0)
         \<and> (snd (Allow now rl key) \<longrightarrow> 1 \<le> key_available now rl key)
         \<and> (global rl = None \<longrightarrow> (snd (Allow now rl key) \<longleftrightarrow> 1 \<le> key_available now rl key))"
proof (cases "global rl")
  case None
  with per_key_Allow_step [OF assms, of now key] show ?thesis by (simp add: Allow_alt)
next
  case (Some g)
  show ?thesis
  proof (cases "snd (limiter_Allow now g)")
    case False
    with Some show ?thesis by (simp add: Allow_alt)
  next
    case True
    from assms have "buckets_sized (rl\<lparr>global := Some (fst (limiter_Allow now g))\<rparr>)"
      and "rl_Window (rlc_PerKey (rl_cfg (rl\<lparr>global := Some (fst (limiter_Allow now g))\<rparr>))) \<noteq> 0"
      by simp_all
    from per_key_Allow_step [OF this, of now key] True Some
    show ?thesis by (simp add: Allow_alt)
  qed
qed

lemma per_key_Allow_sized:
  assumes "buckets_sized rl"
  shows "buckets_sized (fst (per_key_Allow now rl key))"
proof (cases "map_of (limiters rl) key")
  case None
  with assms show ?thesis
    by (simp add: per_key_Allow_alt buckets_sized_def list_all_update list_all_write_through
        limiter_Allow_fields new_bucket_fields)
next
  case (Some l)
  with assms sized_bucket [OF assms Some] show ?thesis
    by (simp add: per_key_Allow_alt buckets_sized_def list_all_write_through limiter_Allow_fields)
qed

lemma Allow_sized: "buckets_sized rl \<Longrightarrow> buckets_sized (fst (Allow now rl key))"
  using per_key_Allow_sized [of rl now key]
    per_key_Allow_sized [of "rl\<lparr>global := Some (fst (limiter_Allow now (the (global rl))))\<rparr>" now key]
  by (auto simp: Allow_alt split: option.splits)

lemma history_sized:
  "buckets_sized rl \<Longrightarrow> buckets_sized (Allow_history hist rl)"
  by (induction hist arbitrary: rl) (auto simp: Allow_sized)

lemma history_cfg: "rl_cfg (Allow_history hist rl) = rl_cfg rl"
  by (induction hist arbitrary: rl) (auto simp: Allow_cfg)

lemma new_sized: "buckets_sized (NewRateLimiter t0 cfg)"
  by (simp add: buckets_sized_def NewRateLimiter_def)

lemma granted_Cons: "granted (ok # oks) = (if ok then 1 else 0) + granted oks"
  by (simp add: granted_def)

lemma granted_at_most_available:
  assumes "buckets_sized rl" and "rl_Window (rlc_PerKey (rl_cfg rl)) \<noteq> 0"
  shows "real (granted (snd (Allow_repeat now rl key n))) \<le> max 0 (key_available now rl key)"
  using assms
proof (induction n arbitrary: rl)
  case 0
  then show ?case by (simp add: granted_def)
next
  case (Suc n)
  obtain rl' ok where a: "Allow now rl key = (rl', ok)" by (cases "Allow now rl key")
  obtain rl'' oks where r: "Allow_repeat now rl' key n = (rl'', oks)"
    by (cases "Allow_repeat now rl' key n")
  from Allow_sized [OF Suc.prems(1), of now key] a have s': "buckets_sized rl'" by simp
  from Allow_cfg [of now rl key] a Suc.prems(2)
  have w': "rl_Window (rlc_PerKey (rl_cfg rl')) \<noteq> 0" by simp
  from Suc.IH [OF s' w'] r have ih: "real (granted oks) \<le> max 0 (key_available now rl' key)" by simp
  from Allow_step [OF Suc.prems, of now key] a
  have st: "key_available now rl' key = key_available now rl key - (if ok then 1 else 0)"
    and ok: "ok \<longrightarrow> 1 \<le> key_available now rl key"
    by simp_all
  from ih st ok show ?case
    by (auto simp: a r granted_Cons max_def split: if_splits)
qed

lemma key_available_le:
  assumes "buckets_sized rl"
  shows "key_available now rl key \<le> real_of_int (rl_Requests (rlc_PerKey (rl_cfg rl)))"
proof (cases "map_of (limiters rl) key")
  case None
  then show ?thesis by (simp add: key_available_def)
next
  case (Some l)
  with sized_bucket(1) [OF assms Some] available_le_burst [of now l] show ?thesis
    by (simp add: key_available_def)
qed

lemma granted_at_most_capacity:
  assumes "buckets_sized rl" and "rl_Window (rlc_PerKey (rl_cfg rl)) \<noteq> 0"
  shows "granted (snd (Allow_repeat now rl key n)) \<le> nat (rl_Requests (rlc_PerKey (rl_cfg rl)))"
proof -
  have "real (granted (snd (Allow_repeat now rl key n))) \<le> max 0 (key_available now rl key)"
    by (rule granted_at_most_available [OF assms])
  also have "\<dots> \<le> max 0 (real_of_int (rl_Requests (rlc_PerKey (rl_cfg rl))))"
    using key_available_le [OF assms(1), of now key] by simp
  also have "\<dots> = real (nat (rl_Requests (rlc_PerKey (rl_cfg rl))))"
    by simp
  finally show ?thesis by simp
qed

lemma granted_all: "list_all (\<lambda>ok. ok) oks \<Longrightarrow> granted oks = length oks"
  by (induction oks) (auto simp: granted_def)

lemma length_Allow_repeat: "length (snd (Allow_repeat now rl key n)) = n"
proof (induction n arbitrary: rl)
  case 0
  then show ?case by simp
next
  case (Suc n)
  obtain rl' ok where a: "Allow now rl key = (rl', ok)" by (cases "Allow now rl key")
  obtain rl'' oks where r: "Allow_repeat now rl' key n = (rl'', oks)"
    by (cases "Allow_repeat now rl' key n")
  from Suc [of rl'] r show ?case by (simp add: a)
qed

lemmas limiter_eval =
  Allow_alt per_key_Allow_alt limiter_Allow_def available_def new_bucket_def NewLimiter_def
  NewRateLimiter_def Seconds_def Let_def float_div_def tokensFromDuration_def write_through_def

text \<open>
  The claim that at most \<open>C\<close> calls at one instant are granted fails for a per-key quota
  with a zero window: the rate \<open>float64(5)/0\<close> is infinite, and of 12 calls of
  \<^verbatim>\<open>Allow\<close> for one key at one instant all 12 are granted, with capacity 5.
\<close>

theorem zero_window_unlimited_counterexample:
  "rl_Requests (rlc_PerKey zero_window_limits) = 5
   \<and> snd (Allow_repeat 0 (NewRateLimiter 0 zero_window_limits) ''client'' 12)
       = [True, True, True, True, True, True, True, True, True, True, True, True]
   \<and> granted (snd (Allow_repeat 0 (NewRateLimiter 0 zero_window_limits) ''client'' 12)) = 12"
  by (simp add: eval_nat_numeral limiter_eval zero_window_limits_def granted_def)

text \<open>
  Claim C9, amended. Take a limiter built by \<^verbatim>\<open>NewRateLimiter\<close> from a configuration
  whose per-key window is not zero, after any earlier calls, and call \<^verbatim>\<open>Allow(key)\<close>
  any number of times at one instant (no time passes, so nothing is refilled). At most
  \<open>C\<close> of these calls return true, where \<open>C\<close> is the per-key quota; in particular, of
  more than \<open>C\<close> such calls not all return true. Each call that returns true takes one
  token from what the key can still draw and needs a whole token to be there; a call
  that returns false takes nothing; and without a global bucket the call returns true
  exactly when a whole token is there. \<^verbatim>\<open>Allow\<close> is a function of the state and the
  clock: it never waits.
\<close>

theorem per_key_grants_bounded:
  "rl_Window (rlc_PerKey cfg) \<noteq> 0 \<longrightarrow>
     granted (snd (Allow_repeat now (Allow_history hist (NewRateLimiter t0 cfg)) key n))
       \<le> nat (rl_Requests (rlc_PerKey cfg))
     \<and> (nat (rl_Requests (rlc_PerKey cfg)) < n \<longrightarrow>
          \<not> list_all (\<lambda>ok. ok) (snd (Allow_repeat now (Allow_history hist (NewRateLimiter t0 cfg)) key n)))
     \<and> key_available now (fst (Allow now (Allow_history hist (NewRateLimiter t0 cfg)) key)) key =
          key_available now (Allow_history hist (NewRateLimiter t0 cfg)) key
          - (if snd (Allow now (Allow_history hist (NewRateLimiter t0 cfg)) key) then 1 else 0)
     \<and> (snd (Allow now (Allow_history hist (NewRateLimiter t0 cfg)) key) \<longrightarrow>
          1 \<le> key_available now (Allow_history hist (NewRateLimiter t0 cfg)) key)
     \<and> (global (Allow_history hist (NewRateLimiter t0 cfg)) = None \<longrightarrow>
          (snd (Allow now (Allow_history hist (NewRateLimiter t0 cfg)) key) \<longleftrightarrow>
             1 \<le> key_available now (Allow_history hist (NewRateLimiter t0 cfg)) key))"
proof
  assume w: "rl_Window (rlc_PerKey cfg) \<noteq> 0"
  let ?rl = "Allow_history hist (NewRateLimiter t0 cfg)"
  have c: "rl_cfg ?rl = cfg" by (simp add: history_cfg NewRateLimiter_def)
  have s: "buckets_sized ?rl" by (rule history_sized [OF new_sized])
  from w c have w': "rl_Window (rlc_PerKey (rl_cfg ?rl)) \<noteq> 0" by simp
  have g: "granted (snd (Allow_repeat now ?rl key n)) \<le> nat (rl_Requests (rlc_PerKey cfg))"
    using granted_at_most_capacity [OF s w', of now key n] c by simp
  have "\<not> list_all (\<lambda>ok. ok) (snd (Allow_repeat now ?rl key n))"
    if "nat (rl_Requests (rlc_PerKey cfg)) < n"
  proof
    assume "list_all (\<lambda>ok. ok) (snd (Allow_repeat now ?rl key n))"
    then have "granted (snd (Allow_repeat now ?rl key n)) = n"
      by (simp add: granted_all length_Allow_repeat)
    with g that show False by simp
  qed
  with g Allow_step [OF s w', of now key]
  show "granted (snd (Allow_repeat now ?rl key n)) \<le> nat (rl_Requests (rlc_PerKey cfg))
     \<and> (nat (rl_Requests (rlc_PerKey cfg)) < n \<longrightarrow>
          \<not> list_all (\<lambda>ok. ok) (snd (Allow_repeat now ?rl key n)))
     \<and> key_available now (fst (Allow now ?rl key)) key =
          key_available now ?rl key - (if snd (Allow now ?rl key) then 1 else 0)
     \<and> (snd (Allow now ?rl key) \<longrightarrow> 1 \<le> key_available now ?rl key)
     \<and> (global ?rl = None \<longrightarrow> (snd (Allow now ?rl key) \<longleftrightarrow> 1 \<le> key_available now ?rl key))"
    by blast
qed

lemma scenario_d:
  "snd (Allow_repeat 0 (NewRateLimiter 0 scenario_limits) ''client'' 6)
     = [True, True, True, True, True, False]"
  by (simp add: eval_nat_numeral limiter_eval scenario_limits_def)

theorem per_key_grants_bounded_witness:
  "rl_Window (rlc_PerKey scenario_limits) \<noteq> 0
   \<and> snd (Allow_repeat 0 (Allow_history [] (NewRateLimiter 0 scenario_limits)) ''client'' 6)
     = [True, True, True, True, True, False]
   \<and> granted (snd (Allow_repeat 0 (Allow_history [] (NewRateLimiter 0 scenario_limits)) ''client'' 6))
       \<le> nat 5"
  using per_key_grants_bounded [where now = 0 and hist = "[]" and ?t0.0 = 0 and cfg = scenario_limits
      and key = "''client''" and n = 6]
    scenario_d
  by (simp add: scenario_limits_def)

lemma Allow_global:
  "global rl = Some g \<Longrightarrow> global (fst (Allow now rl key)) = Some (fst (limiter_Allow now g))"
  by (simp add: Allow_alt per_key_Allow_frame)

lemma global_drained:
  "global rl = Some g \<Longrightarrow> lim_limit g \<noteq> PosInf \<Longrightarrow> real n \<le> available now g \<Longrightarrow>
   global_available now (fst (Allow_repeat now rl key n)) = Some (available now g - real n)"
proof (induction n arbitrary: rl g)
  case 0
  then show ?case by (simp add: global_available_def)
next
  case (Suc n)
  obtain rl' ok where al: "Allow now rl key = (rl', ok)" by (cases "Allow now rl key")
  obtain rl'' oks where r: "Allow_repeat now rl' key n = (rl'', oks)"
    by (cases "Allow_repeat now rl' key n")
  from Suc.prems(3) have "1 \<le> available now g" by simp
  then have ok: "snd (limiter_Allow now g)" by (simp add: limiter_Allow_ok [OF Suc.prems(2)])
  from Allow_global [OF Suc.prems(1), of now key] al
  have g': "global rl' = Some (fst (limiter_Allow now g))" by simp
  have f': "lim_limit (fst (limiter_Allow now g)) \<noteq> PosInf"
    using Suc.prems(2) by (simp add: limiter_Allow_fields)
  from ok have a': "available now (fst (limiter_Allow now g)) = available now g - 1"
    by (simp add: available_after [OF Suc.prems(2)])
  with Suc.prems(3) have "real n \<le> available now (fst (limiter_Allow now g))" by simp
  from Suc.IH [OF g' f' this] r a' show ?case
    by (simp add: al)
qed

lemma history_global:
  "global rl = Some g \<Longrightarrow> \<exists>g'. global (Allow_history hist rl) = Some g' \<and> lim_limit g' = lim_limit g"
proof (induction hist arbitrary: rl g)
  case Nil
  then show ?case by simp
next
  case (Cons a hist)
  obtain t k where a: "a = (t, k)" by (cases a)
  from Allow_global [OF Cons.prems, of t k]
  have "global (fst (Allow t rl k)) = Some (fst (limiter_Allow t g))" .
  from Cons.IH [OF this] a show ?case by (simp add: limiter_Allow_fields)
qed

lemma configured_global:
  assumes "0 < rl_Requests (rlc_Global cfg)" and "rl_Window (rlc_Global cfg) \<noteq> 0"
  shows "\<exists>g x. global (Allow_history hist (NewRateLimiter t0 cfg)) = Some g \<and> lim_limit g = Finite x"
proof -
  from assms(1) have "global (NewRateLimiter t0 cfg) = Some (new_bucket t0 (rlc_Global cfg))"
    by (simp add: NewRateLimiter_def)
  moreover from assms(2) have "\<exists>x. lim_limit (new_bucket t0 (rlc_Global cfg)) = Finite x"
    by (simp add: new_bucket_def NewLimiter_def float_div_def Seconds_def)
  ultimately show ?thesis
    using history_global [of "NewRateLimiter t0 cfg" "new_bucket t0 (rlc_Global cfg)" hist]
    by auto
qed

text \<open>
  The claim that a call which the global bucket grants takes a token from it fails for a
  global quota with a zero window: the rate \<open>float64(2)/0\<close> is infinite, the global
  bucket grants, and it is left as it was, with its 2 tokens, after four calls of which
  the per-key bucket denies three.
\<close>

theorem zero_window_global_counterexample:
  "global (NewRateLimiter 0 zero_window_global) = Some (new_bucket 0 (rlc_Global zero_window_global))
   \<and> snd (limiter_Allow 0 (new_bucket 0 (rlc_Global zero_window_global)))
   \<and> lim_tokens (new_bucket 0 (rlc_Global zero_window_global)) = 2
   \<and> snd (Allow_repeat 0 (NewRateLimiter 0 zero_window_global) ''greedy'' 4)
       = [True, False, False, False]
   \<and> global (fst (Allow_repeat 0 (NewRateLimiter 0 zero_window_global) ''greedy'' 4))
       = Some (new_bucket 0 (rlc_Global zero_window_global))"
  by (simp add: eval_nat_numeral limiter_eval zero_window_global_def)

text \<open>
  Claim C10, amended. With a global bucket whose rate is finite, which is what a
  configured global quota with a window other than zero gives, a call of
  \<^verbatim>\<open>Allow(key)\<close> that the global bucket grants leaves the global bucket one token poorer
  whatever the per-key bucket then answers. Consequently \<open>n\<close> calls at one instant by
  any one key, while the global bucket holds at least \<open>n\<close> tokens, take \<open>n\<close> tokens from
  it, also when the key's own bucket denies every one of them.
\<close>

theorem global_token_spent_before_key_check:
  "(global rl = Some g \<and> lim_limit g = Finite x \<and> snd (limiter_Allow now g) \<longrightarrow>
      global (fst (Allow now rl key)) = Some (fst (limiter_Allow now g))
      \<and> lim_tokens (fst (limiter_Allow now g)) = available now g - 1
      \<and> available now (fst (limiter_Allow now g)) = available now g - 1)
   \<and> (global rl = Some g \<and> lim_limit g = Finite x \<and> real n \<le> available now g \<longrightarrow>
        global_available now (fst (Allow_repeat now rl key n)) = Some (available now g - real n))
   \<and> (0 < rl_Requests (rlc_Global cfg) \<and> rl_Window (rlc_Global cfg) \<noteq> 0 \<longrightarrow>
        (\<exists>g' x'. global (Allow_history hist (NewRateLimiter t0 cfg)) = Some g'
                 \<and> lim_limit g' = Finite x'))"
proof -
  have f: "lim_limit g \<noteq> PosInf" if "lim_limit g = Finite x"
    using that by simp
  have a: "global rl = Some g \<and> lim_limit g = Finite x \<and> snd (limiter_Allow now g) \<longrightarrow>
      global (fst (Allow now rl key)) = Some (fst (limiter_Allow now g))
      \<and> lim_tokens (fst (limiter_Allow now g)) = available now g - 1
      \<and> available now (fst (limiter_Allow now g)) = available now g - 1"
    using f Allow_global [of rl g now key] limiter_Allow_tokens [of g now] available_after [of g now]
    by simp
  have b: "global rl = Some g \<and> lim_limit g = Finite x \<and> real n \<le> available now g \<longrightarrow>
        global_available now (fst (Allow_repeat now rl key n)) = Some (available now g - real n)"
    using f global_drained [of rl g n now key] by simp
  have c: "0 < rl_Requests (rlc_Global cfg) \<and> rl_Window (rlc_Global cfg) \<noteq> 0 \<longrightarrow>
        (\<exists>g' x'. global (Allow_history hist (NewRateLimiter t0 cfg)) = Some g'
                 \<and> lim_limit g' = Finite x')"
    using configured_global [of cfg hist t0] by simp
  from a b c show ?thesis by simp
qed

lemma shared_run:
  "snd (Allow_repeat 0 (NewRateLimiter 0 shared_limits) ''greedy'' 5)
     = [True, False, False, False, False]"
  by (simp add: eval_nat_numeral limiter_eval shared_limits_def)

lemma shared_global:
  "global (NewRateLimiter 0 shared_limits) = Some (new_bucket 0 (rlc_Global shared_limits))"
  "lim_limit (new_bucket 0 (rlc_Global shared_limits)) = Finite (1 / 6)"
  "snd (limiter_Allow 0 (new_bucket 0 (rlc_Global shared_limits)))"
  "available 0 (new_bucket 0 (rlc_Global shared_limits)) = 10"
  by (simp_all add: limiter_eval shared_limits_def)

theorem global_token_spent_before_key_check_witness:
  "snd (Allow_repeat 0 (NewRateLimiter 0 shared_limits) ''greedy'' 5)
     = [True, False, False, False, False]
   \<and> global_available 0 (NewRateLimiter 0 shared_limits) = Some 10
   \<and> global_available 0 (fst (Allow_repeat 0 (NewRateLimiter 0 shared_limits) ''greedy'' 5)) = Some 5
   \<and> global (fst (Allow 0 (NewRateLimiter 0 shared_limits) ''greedy''))
       = Some (fst (limiter_Allow 0 (new_bucket 0 (rlc_Global shared_limits))))
   \<and> 0 < rl_Requests (rlc_Global shared_limits) \<and> rl_Window (rlc_Global shared_limits) \<noteq> 0"
  using global_token_spent_before_key_check [where now = 0 and rl = "NewRateLimiter 0 shared_limits"
      and n = 5 and key = "''greedy''" and g = "new_bucket 0 (rlc_Global shared_limits)"
      and x = "1 / 6" and cfg = shared_limits and hist = "[]" and ?t0.0 = 0]
    shared_run shared_global
  by (simp add: global_available_def shared_limits_def)

section \<open>The eviction loop returns\<close>

text \<open>
  On a cache that keeps its representation invariant, which every operation preserves
  and the new cache has, the eviction loop of \<^verbatim>\<open>Set\<close> ends, so \<^verbatim>\<open>Set\<close>, any sequence
  of cache operations and the request handler always return. For a key that is not yet
  stored and a value no larger than \<^verbatim>\<open>maxSize\<close>, \<^verbatim>\<open>Set\<close> leaves the cache within its
  byte bound: this is the case the eviction loop covers.
\<close>

lemma delete_keys: "fst ` set (AList.delete k al) = fst ` set al - {k}"
  by (auto simp: AList.delete_eq image_iff)

lemma delete_list_all: "list_all P al \<Longrightarrow> list_all P (AList.delete k al)"
  by (simp add: AList.delete_eq list_all_iff)

lemma removeItem_inv:
  assumes "cache_inv c" and "map_of (items c) k = Some item"
  shows "cache_inv (removeItem c item)"
    and "length (lru (removeItem c item)) < length (lru c)"
    and "maxSize (removeItem c item) = maxSize c"
    and "fst ` set (items (removeItem c item)) \<subseteq> fst ` set (items c)"
proof -
  from assms(2) have m: "(k, item) \<in> set (items c)" by (rule map_of_SomeD)
  with assms(1) have k: "ci_key item = k" by (auto simp: cache_inv_def list_all_iff)
  from m assms(1) have kin: "k \<in> set (lru c)" by (force simp: cache_inv_def)
  from assms(1) show "cache_inv (removeItem c item)"
    by (auto simp: cache_inv_def removeItem_def k delete_keys delete_list_all distinct_delete)
  from kin show "length (lru (removeItem c item)) < length (lru c)"
    by (simp add: removeItem_def k length_remove1) (cases "lru c"; auto)
  show "maxSize (removeItem c item) = maxSize c"
    by (simp add: removeItem_def)
  show "fst ` set (items (removeItem c item)) \<subseteq> fst ` set (items c)"
    by (auto simp: removeItem_def delete_keys)
qed

lemma evictOldest_inv:
  assumes "cache_inv c" and "lru c \<noteq> []"
  shows "cache_inv (evictOldest c)"
    and "length (lru (evictOldest c)) < length (lru c)"
    and "maxSize (evictOldest c) = maxSize c"
    and "fst ` set (items (evictOldest c)) \<subseteq> fst ` set (items c)"
proof -
  from assms have "last (lru c) \<in> fst ` set (items c)" by (auto simp: cache_inv_def)
  then obtain item where i: "map_of (items c) (last (lru c)) = Some item"
    by (cases "map_of (items c) (last (lru c))") (auto simp: map_of_eq_None_iff)
  from removeItem_inv [OF assms(1) i] assms(2) i
  show "cache_inv (evictOldest c)" and "length (lru (evictOldest c)) < length (lru c)"
    and "maxSize (evictOldest c) = maxSize c"
    and "fst ` set (items (evictOldest c)) \<subseteq> fst ` set (items c)"
    by (simp_all add: evictOldest_def)
qed

lemma evict_loop_returns:
  "cache_inv c \<Longrightarrow>
   \<exists>c'. evict_loop c n = Some c' \<and> cache_inv c' \<and> maxSize c' = maxSize c
        \<and> fst ` set (items c') \<subseteq> fst ` set (items c)
        \<and> (currentSize c' + n \<le> maxSize c' \<or> lru c' = [])"
proof (induction "length (lru c)" arbitrary: c rule: less_induct)
  case less
  show ?case
  proof (cases "currentSize c + n > maxSize c \<and> length (lru c) > 0")
    case False
    then have "evict_loop c n = Some c" by (subst evict_loop.simps) auto
    with False less.prems show ?thesis by auto
  next
    case True
    then have ne: "lru c \<noteq> []" by auto
    from True have e: "evict_loop c n = evict_loop (evictOldest c) n"
      by (subst evict_loop.simps) auto
    from less.hyps [OF evictOldest_inv(2) [OF less.prems ne] evictOldest_inv(1) [OF less.prems ne]]
      evictOldest_inv(3,4) [OF less.prems ne] e
    show ?thesis by auto
  qed
qed


lemma update_new: "k \<notin> fst ` set al \<Longrightarrow> AList.update k v al = al @ [(k, v)]"
  by (induction al) auto

lemma MoveToFront_set: "distinct l \<Longrightarrow> set (MoveToFront k l) = set l"
  by (auto simp: MoveToFront_def)

lemma update_key_set: "fst ` set (AList.update k v al) = insert k (fst ` set al)"
  by (induction al) auto

lemma MoveToFront_distinct: "distinct l \<Longrightarrow> distinct (MoveToFront k l)"
  by (auto simp: MoveToFront_def)

lemma cache_Set_returns:
  assumes "cache_inv c"
  shows "\<exists>c'. cache_Set now c key val = Some c' \<and> cache_inv c' \<and> maxSize c' = maxSize c"
proof (cases "map_of (items c) key")
  case (Some item)
  then have m: "(key, item) \<in> set (items c)" by (rule map_of_SomeD)
  with assms have k: "ci_key item = key" by (auto simp: cache_inv_def list_all_iff)
  from m have kin: "key \<in> fst ` set (items c)" by force
  from assms kin have "cache_inv (c\<lparr>items := AList.update key
        (item\<lparr>ci_value := val, ci_expiresAt := now + ttl c\<rparr>) (items c),
      lru := MoveToFront key (lru c)\<rparr>)"
    by (auto simp: cache_inv_def MoveToFront_set MoveToFront_distinct distinct_update
          update_key_set k list_all_update)
  with Some show ?thesis by (simp add: cache_Set_def)
next
  case None
  from evict_loop_returns [OF assms, of "int (length val)"] obtain c' where
    e: "evict_loop c (int (length val)) = Some c'" and i: "cache_inv c'"
    and ms: "maxSize c' = maxSize c" and sub: "fst ` set (items c') \<subseteq> fst ` set (items c)"
    by blast
  from None have "key \<notin> fst ` set (items c)" by (simp add: map_of_eq_None_iff)
  with sub have nk: "key \<notin> fst ` set (items c')" by blast
  with i have "cache_inv (c'\<lparr>lru := key # lru c',
      items := AList.update key \<lparr>ci_key = key, ci_value = val, ci_expiresAt = now + ttl c'\<rparr> (items c')\<rparr>)"
    by (auto simp: cache_inv_def update_new)
  with None e ms show ?thesis by (simp add: cache_Set_def)
qed

lemma cache_Set_new_key_bounded:
  assumes "cache_inv c" and "map_of (items c) key = None" and "int (length val) \<le> maxSize c"
  shows "\<exists>c'. cache_Set now c key val = Some c' \<and> currentSize c' \<le> maxSize c'"
proof -
  from evict_loop_returns [OF assms(1), of "int (length val)"] obtain c' where
    e: "evict_loop c (int (length val)) = Some c'" and i: "cache_inv c'"
    and ms: "maxSize c' = maxSize c" and sub: "fst ` set (items c') \<subseteq> fst ` set (items c)"
    and b: "currentSize c' + int (length val) \<le> maxSize c' \<or> lru c' = []"
    by blast
  from assms(2) have "key \<notin> fst ` set (items c)" by (simp add: map_of_eq_None_iff)
  with sub have nk: "key \<notin> fst ` set (items c')" by blast
  from b have "currentSize c' + int (length val) \<le> maxSize c'"
  proof
    assume "lru c' = []"
    with i have "items c' = []" by (simp add: cache_inv_def)
    with assms(3) ms show ?thesis by (simp add: currentSize_def)
  qed
  with assms(2) e nk show ?thesis
    by (simp add: cache_Set_def update_new currentSize_def)
qed


lemma misses_inv [simp]: "cache_inv (c\<lparr>misses := m\<rparr>) = cache_inv c"
  by (simp add: cache_inv_def)

lemma cache_Get_inv: "cache_inv c \<Longrightarrow> cache_inv (fst (cache_Get now c key))"
proof (cases "map_of (items c) key")
  case None
  assume "cache_inv c"
  with None show ?thesis by (simp add: cache_Get_def)
next
  case (Some item)
  assume i: "cache_inv c"
  then have "cache_inv (c\<lparr>lru := MoveToFront key (lru c), hits := hits c + 1\<rparr>)"
    by (simp add: cache_inv_def MoveToFront_set MoveToFront_distinct)
  with Some removeItem_inv(1) [OF i Some] show ?thesis
    by (simp add: cache_Get_def)
qed

lemma cache_Delete_inv: "cache_inv c \<Longrightarrow> cache_inv (cache_Delete c key)"
  using removeItem_inv(1) [of c key]
  by (cases "map_of (items c) key") (simp_all add: cache_Delete_def)

lemma cache_Clear_inv: "cache_inv (cache_Clear c)"
  by (simp add: cache_Clear_def cache_inv_def)

lemma NewMemoryCache_inv: "cache_inv (NewMemoryCache mb t)"
  by (simp add: NewMemoryCache_def cache_inv_def)

lemma cache_apply_returns:
  "cache_inv c \<Longrightarrow> \<exists>c'. cache_apply now op c = Some c' \<and> cache_inv c'"
  using cache_Set_returns [of c now]
  by (cases op) (auto simp: cache_Get_inv cache_Delete_inv cache_Clear_inv)

lemma cache_run_returns:
  "cache_inv c \<Longrightarrow> \<exists>c'. cache_run ops c = Some c' \<and> cache_inv c'"
proof (induction ops arbitrary: c)
  case Nil
  then show ?case by simp
next
  case (Cons a ops)
  obtain now op where a: "a = (now, op)" by (cases a)
  from cache_apply_returns [OF Cons.prems, of now op] obtain c1 where
    "cache_apply now op c = Some c1" and "cache_inv c1" by blast
  with Cons.IH [of c1] a show ?case by simp
qed

lemma dispatch_returns:
  assumes "\<And>c. srv_cache s = Some c \<Longrightarrow> cache_inv c"
  shows "\<exists>h. dispatch se s prov req = Some h"
proof (cases "srv_cache s")
  case None
  then show ?thesis
    by (auto simp: dispatch_def Let_def split: sum.splits)
next
  case (Some c)
  with assms have "cache_inv c" by simp
  then have ns: "cache_Set now c k v \<noteq> None" for now k v
    using cache_Set_returns [of c now k v] by auto
  from Some show ?thesis
    apply (auto simp: dispatch_def Let_def split: sum.splits option.splits)
    subgoal for resp respBytes
      using ns [of "t_store se" "generateCacheKey se req" respBytes] by simp
    done
qed

lemma handleChatCompletion_returns:
  assumes "\<And>c. srv_cache s = Some c \<Longrightarrow> cache_inv c"
  shows "\<exists>h. handleChatCompletion se s parsed = Some h"
proof (cases parsed)
  case (Inl err)
  then show ?thesis by (simp add: handleChatCompletion_def)
next
  case (Inr req)
  show ?thesis
  proof (cases "GetForModel (srv_registry s) (req_Model req)")
    case (Inl err)
    with Inr show ?thesis by (simp add: handleChatCompletion_def)
  next
    case r: (Inr prov)
    show ?thesis
    proof (cases "if \<not> req_Stream req \<and> cache_requested req then srv_cache s else None")
      case None
      with Inr r dispatch_returns [where s = s and se = se and prov = prov and req = req, OF assms]
      show ?thesis
        by (simp add: handleChatCompletion_def)
    next
      case (Some c)
      then have sc: "srv_cache s = Some c" by (simp split: if_splits)
      with assms have i: "cache_inv c" by simp
      obtain c' res where g: "cache_Get (t_lookup se) c (generateCacheKey se req) = (c', res)"
        by (cases "cache_Get (t_lookup se) c (generateCacheKey se req)")
      with cache_Get_inv [OF i, of "t_lookup se" "generateCacheKey se req"] have "cache_inv c'"
        by simp
      then have "\<exists>h. dispatch se (s\<lparr>srv_cache := Some c', srv_metrics := RecordCacheMiss (srv_metrics s)\<rparr>)
                    prov req = Some h"
        by (intro dispatch_returns) simp
      with Inr r Some g show ?thesis
        by (cases res) (simp_all add: handleChatCompletion_def)
    qed
  qed
qed

section \<open>Resolution of the model\<close>

text \<open>
  The claim that a model which is in no mapping and which no provider supports is
  answered with 400 and no provider call fails under the README's configuration, where
  \<^verbatim>\<open>defaultProvider\<close> is \<^verbatim>\<open>openai\<close>: the request for
  \<^verbatim>\<open>unknown-model-xyz\<close> goes to that provider, is answered 200, and a successful
  usage record is written.
\<close>

theorem default_provider_called_counterexample:
  "mapped_provider (srv_registry readme_server) ''unknown-model-xyz'' = None
   \<and> supporting_provider (srv_registry readme_server) ''unknown-model-xyz'' = None
   \<and> calls_of (handleChatCompletion (scenario_server_env ok_env) readme_server
         (Inr (scenario_request\<lparr>req_Model := ''unknown-model-xyz''\<rparr>))) = [''openai'']
   \<and> status_of (handleChatCompletion (scenario_server_env ok_env) readme_server
         (Inr (scenario_request\<lparr>req_Model := ''unknown-model-xyz''\<rparr>))) = Some 200
   \<and> map pm_Success (recorded_of (handleChatCompletion (scenario_server_env ok_env) readme_server
         (Inr (scenario_request\<lparr>req_Model := ''unknown-model-xyz''\<rparr>)))) = [True]"
proof -
  have m: "mapped_provider (NewRegistry readme_config) ''unknown-model-xyz'' = None"
    by (simp add: readme_registry mapped_provider_def)
  have sp: "supporting_provider (NewRegistry readme_config) ''unknown-model-xyz'' = None"
    by (simp add: readme_registry supporting_provider_def OpenAI_SupportsModel_def
        Anthropic_SupportsModel_def shortNames_def scenario_openai_def scenario_anthropic_def
        NewOpenAIProvider_def NewAnthropicProvider_def)
  show ?thesis
    unfolding unknown_handled
    by (simp add: m sp dispatch_def se_fields openai_call_ok Let_def scenario_names scenario_servers
        calls_of_def recorded_of_def status_of_def completion_metrics_def)
qed

lemma GetForModel_error_iff:
  "GetForModel r model = Inl err \<longleftrightarrow>
     mapped_provider r model = None \<and> supporting_provider r model = None
     \<and> default_provider r = None \<and> err = NoProviderFound model"
  by (auto simp: GetForModel_def split: option.splits)

lemma GetForModel_default:
  "mapped_provider r model = None \<Longrightarrow> supporting_provider r model = None \<Longrightarrow>
   default_provider r = Some prov \<Longrightarrow> GetForModel r model = Inr prov"
  by (simp add: GetForModel_def)

lemma handle_unresolved:
  "GetForModel (srv_registry s) (req_Model req) = Inl err \<Longrightarrow>
   handleChatCompletion se s (Inr req) =
     Some \<lparr>h_response = writeError [] 400 ''model not found'' (error_string err), h_server = s,
           h_calls = [], h_forwarded = [], h_recorded = []\<rparr>"
  by (simp add: handleChatCompletion_def)

lemma cache_Get_hit:
  "snd (cache_Get now c key) \<noteq> None \<longleftrightarrow>
     (case map_of (items c) key of None \<Rightarrow> False | Some item \<Rightarrow> now \<le> ci_expiresAt item)"
  by (simp add: cache_Get_def split: option.splits)

lemma dispatch_calls:
  assumes "cache_consistent s"
  shows "\<exists>h. dispatch se s prov req = Some h \<and> h_calls h = [Name prov] \<and> h_forwarded h = [req]
            \<and> cache_consistent (h_server h)
            \<and> (case cr_result (ChatCompletion (net se) prov req) of
                  Inl err \<Rightarrow> h_response h = provider_failure err \<and> h_recorded h = []
                | Inr resp \<Rightarrow> h_recorded h = [completion_metrics se prov req resp])"
proof (cases "cr_result (ChatCompletion (net se) prov req)")
  case (Inl err)
  with assms show ?thesis by (simp add: dispatch_def)
next
  case (Inr resp)
  show ?thesis
  proof (cases "marshalResponse se resp")
    case (Inl msg)
    with Inr assms show ?thesis by (simp add: dispatch_def Let_def cache_consistent_def)
  next
    case b: (Inr respBytes)
    show ?thesis
    proof (cases "srv_cache s")
      case None
      with Inr b show ?thesis by (simp add: dispatch_def Let_def cache_consistent_def)
    next
      case (Some c)
      with assms have i: "cache_inv c" by (simp add: cache_consistent_def)
      from cache_Set_returns [OF i, of "t_store se" "generateCacheKey se req" respBytes]
      obtain c' where "cache_Set (t_store se) c (generateCacheKey se req) respBytes = Some c'"
        and "cache_inv c'" by blast
      with Inr b Some i show ?thesis by (simp add: dispatch_def Let_def cache_consistent_def)
    qed
  qed
qed

lemma streaming_calls:
  "h_calls (handleStreamingCompletion se s prov req) = [Name prov]"
  "h_forwarded (handleStreamingCompletion se s prov req) = [req]"
  "srv_cache (h_server (handleStreamingCompletion se s prov req)) = srv_cache s"
  "case sr_result (ChatCompletionStream (net se) prov req) of
     Inl err \<Rightarrow> h_response (handleStreamingCompletion se s prov req) = provider_failure err
               \<and> h_recorded (handleStreamingCompletion se s prov req) = []
   | Inr stream \<Rightarrow> True"
  by (simp_all add: handleStreamingCompletion_def Let_def split: sum.splits)

lemma handle_resolved:
  assumes r: "GetForModel (srv_registry s) (req_Model req) = Inr prov" and i: "cache_consistent s"
  shows "\<exists>h. handleChatCompletion se s (Inr req) = Some h \<and> cache_consistent (h_server h)
           \<and> (if cache_hit se s req
               then h_calls h = [] \<and> h_forwarded h = [] \<and> h_recorded h = []
                    \<and> rs_status (h_response h) = 200
                    \<and> map_of (rs_headers (h_response h)) ''X-Cache'' = Some ''HIT''
               else h_calls h = [Name prov] \<and> h_forwarded h = [req]
                    \<and> (if req_Stream req
                        then (case sr_result (ChatCompletionStream (net se) prov req) of
                                Inl err \<Rightarrow> h_response h = provider_failure err \<and> h_recorded h = []
                              | Inr stream \<Rightarrow> True)
                        else (case cr_result (ChatCompletion (net se) prov req) of
                                Inl err \<Rightarrow> h_response h = provider_failure err \<and> h_recorded h = []
                              | Inr resp \<Rightarrow> h_recorded h = [completion_metrics se prov req resp])))"
proof (cases "if \<not> req_Stream req \<and> cache_requested req then srv_cache s else None")
  case None
  then have nh: "\<not> cache_hit se s req"
    by (auto simp: cache_hit_def split: if_splits)
  show ?thesis
  proof (cases "req_Stream req")
    case True
    with r None have "handleChatCompletion se s (Inr req) = Some (handleStreamingCompletion se s prov req)"
      by (simp add: handleChatCompletion_def)
    with True nh i streaming_calls [of se s prov req] show ?thesis
      by (simp add: cache_consistent_def)
  next
    case False
    with r None have "handleChatCompletion se s (Inr req) = dispatch se s prov req"
      by (simp add: handleChatCompletion_def)
    with False nh dispatch_calls [OF i, of se prov req] show ?thesis
      by auto
  qed
next
  case (Some c)
  then have sc: "srv_cache s = Some c" and ns: "\<not> req_Stream req" and cr: "cache_requested req"
    by (simp_all split: if_splits)
  from sc i have ci: "cache_inv c" by (simp add: cache_consistent_def)
  obtain c' res where g: "cache_Get (t_lookup se) c (generateCacheKey se req) = (c', res)"
    by (cases "cache_Get (t_lookup se) c (generateCacheKey se req)")
  with cache_Get_inv [OF ci, of "t_lookup se" "generateCacheKey se req"] have ci': "cache_inv c'"
    by simp
  from g cache_Get_hit [of "t_lookup se" c "generateCacheKey se req"] sc ns cr
  have hit: "cache_hit se s req \<longleftrightarrow> res \<noteq> None"
    by (simp add: cache_hit_def)
  show ?thesis
  proof (cases res)
    case (Some cached)
    with r sc ns cr g hit ci' show ?thesis
      by (simp add: handleChatCompletion_def cache_consistent_def)
  next
    case None
    let ?s = "s\<lparr>srv_cache := Some c', srv_metrics := RecordCacheMiss (srv_metrics s)\<rparr>"
    from ci' have "cache_consistent ?s" by (simp add: cache_consistent_def)
    from dispatch_calls [OF this, of se prov req] r sc ns cr g hit None show ?thesis
      by (auto simp: handleChatCompletion_def)
  qed
qed

lemma new_server_consistent:
  "cache_consistent \<lparr>srv_registry = r, srv_cache = None, srv_metrics = m\<rparr>"
  "cache_consistent \<lparr>srv_registry = r, srv_cache = Some (NewMemoryCache mb t), srv_metrics = m\<rparr>"
  by (simp_all add: cache_consistent_def NewMemoryCache_inv)

text \<open>
  Claim C1, amended. \<^verbatim>\<open>GetForModel\<close> fails exactly when the model has no usable
  mapping, no provider supports it, and no registered default provider is configured;
  the error then names the model. In that case the handler answers 400 with
  \<^verbatim>\<open>error.type\<close> \<^verbatim>\<open>model not found\<close>, calls no provider and records nothing.
  When a registered default provider is configured, a model that is neither mapped nor
  supported resolves to it. Whenever the model resolves to a provider, on a server whose
  cache (if any) keeps its representation invariant, as a new server's does and as the
  handler preserves, the handler returns, and: if the response is found in the cache
  (the request is not streaming, has not switched caching off, and a live entry is
  stored under its key) it answers 200 with \<^verbatim>\<open>X-Cache: HIT\<close>, calls no provider and
  records nothing; otherwise it calls that provider and no other, once, with the
  request as it came, model name included, answers a failed call with the provider's
  error and records a successful non-streaming call with that call's usage.
\<close>

theorem unresolved_model_rejected:
  "(GetForModel r model = Inl err \<longleftrightarrow>
      mapped_provider r model = None \<and> supporting_provider r model = None
      \<and> default_provider r = None \<and> err = NoProviderFound model)
   \<and> (GetForModel (srv_registry s) (req_Model req) = Inl err \<longrightarrow>
        handleChatCompletion se s (Inr req) =
          Some \<lparr>h_response = writeError [] 400 ''model not found'' (error_string err), h_server = s,
                h_calls = [], h_forwarded = [], h_recorded = []\<rparr>)
   \<and> (mapped_provider r model = None \<and> supporting_provider r model = None
        \<and> default_provider r = Some prov \<longrightarrow> GetForModel r model = Inr prov)
   \<and> (GetForModel (srv_registry s) (req_Model req) = Inr prov \<and> cache_consistent s \<longrightarrow>
        (\<exists>h. handleChatCompletion se s (Inr req) = Some h \<and> cache_consistent (h_server h)
           \<and> (if cache_hit se s req
               then h_calls h = [] \<and> h_forwarded h = [] \<and> h_recorded h = []
                    \<and> rs_status (h_response h) = 200
                    \<and> map_of (rs_headers (h_response h)) ''X-Cache'' = Some ''HIT''
               else h_calls h = [Name prov] \<and> h_forwarded h = [req]
                    \<and> (if req_Stream req
                        then (case sr_result (ChatCompletionStream (net se) prov req) of
                                Inl err \<Rightarrow> h_response h = provider_failure err \<and> h_recorded h = []
                              | Inr stream \<Rightarrow> True)
                        else (case cr_result (ChatCompletion (net se) prov req) of
                                Inl err \<Rightarrow> h_response h = provider_failure err \<and> h_recorded h = []
                              | Inr resp \<Rightarrow> h_recorded h = [completion_metrics se prov req resp])))))
   \<and> cache_consistent \<lparr>srv_registry = r, srv_cache = None, srv_metrics = m\<rparr>
   \<and> cache_consistent \<lparr>srv_registry = r, srv_cache = Some (NewMemoryCache mb t), srv_metrics = m\<rparr>"
  using GetForModel_error_iff [of r model err] handle_unresolved [of s req err se]
    GetForModel_default [of r model prov] handle_resolved [of s req prov se]
    new_server_consistent
  by blast

lemma no_default_registry:
  "NewRegistry no_default_config =
     \<lparr>providers = [(''openai'', OpenAI scenario_openai), (''anthropic'', Anthropic scenario_anthropic)],
      modelMapping = [(''gpt-4'', ''openai''), (''gpt-4-turbo'', ''openai''), (''gpt-3.5-turbo'', ''openai''),
                      (''claude-3-opus'', ''anthropic''), (''claude-3-sonnet'', ''anthropic''),
                      (''claude-3-haiku'', ''anthropic'')],
      fallbackChain = [''openai'', ''anthropic''],
      defaultProvider = []\<rparr>"
  by (simp add: no_default_config_def readme_config_def NewRegistry_def register_provider_def
      createProvider_def scenario_openai_def scenario_anthropic_def)

lemma no_default_unknown:
  "GetForModel (srv_registry no_default_server) ''unknown-model-xyz'' = Inl (NoProviderFound ''unknown-model-xyz'')"
  by (simp add: no_default_server_def no_default_registry GetForModel_def mapped_provider_def
      supporting_provider_def default_provider_def OpenAI_SupportsModel_def Anthropic_SupportsModel_def
      shortNames_def scenario_openai_def scenario_anthropic_def NewOpenAIProvider_def
      NewAnthropicProvider_def)

lemma cached_fields:
  "srv_cache cached_server = Some (NewMemoryCache 512 hour)"
  "srv_registry cached_server = NewRegistry readme_config"
  "srv_metrics cached_server = NewCollector"
  "req_Model unknown_request = ''unknown-model-xyz''" "\<not> req_Stream unknown_request"
  "cache_requested unknown_request"
  by (simp_all add: cached_server_def readme_server_def unknown_request_def scenario_request_def
      cache_requested_def)

lemma empty_evict: "evict_loop (c\<lparr>items := [], lru := []\<rparr>) n = Some (c\<lparr>items := [], lru := []\<rparr>)"
  by (subst evict_loop.simps) simp

lemma warm_fields:
  "srv_cache warm_server =
     Some \<lparr>maxSize = 536870912, ttl = hour,
           items = [([], \<lparr>ci_key = [], ci_value = ''{}'', ci_expiresAt = 250000000 + hour\<rparr>)],
           lru = [[]], hits = 0, misses = 1\<rparr>"
  "srv_registry warm_server = NewRegistry readme_config"
proof -
  have c: "NewMemoryCache 512 hour =
      \<lparr>maxSize = 536870912, ttl = hour, items = [], lru = [], hits = 0, misses = 0\<rparr>"
    by (simp add: NewMemoryCache_def)
  have e: "evict_loop \<lparr>maxSize = 536870912, ttl = hour, items = [], lru = [], hits = 0, misses = 1\<rparr> n
      = Some \<lparr>maxSize = 536870912, ttl = hour, items = [], lru = [], hits = 0, misses = 1\<rparr>" for n
    by (subst evict_loop.simps) simp
  have o: "OpenAI_ChatCompletion ok_env scenario_openai unknown_request =
     \<lparr>cr_result = Inr scenario_response, cr_sent = OpenAI_request_body unknown_request,
      cr_attempts = 1, cr_slept = 0\<rparr>"
    using openai_call_ok [of "''unknown-model-xyz''"] by (simp add: unknown_request_def)
  have f: "t_store (scenario_server_env ok_env) = 250000000"
    "t_lookup (scenario_server_env ok_env) = 0"
    "sha256_hex (scenario_server_env ok_env) j = []" for j
    by (simp_all add: scenario_server_env_def)
  have h: "handleChatCompletion (scenario_server_env ok_env) cached_server (Inr unknown_request) =
      dispatch (scenario_server_env ok_env)
        (cached_server\<lparr>srv_cache := Some \<lparr>maxSize = 536870912, ttl = hour, items = [], lru = [],
                                          hits = 0, misses = 1\<rparr>,
                       srv_metrics := RecordCacheMiss (srv_metrics cached_server)\<rparr>)
        (OpenAI scenario_openai) unknown_request"
    by (simp add: handleChatCompletion_def cached_fields unknown_get c cache_Get_def)
  show "srv_cache warm_server =
     Some \<lparr>maxSize = 536870912, ttl = hour,
           items = [([], \<lparr>ci_key = [], ci_value = ''{}'', ci_expiresAt = 250000000 + hour\<rparr>)],
           lru = [[]], hits = 0, misses = 1\<rparr>"
    unfolding warm_server_def h
    by (simp add: dispatch_def se_fields f o Let_def cached_fields cache_Set_def e
        generateCacheKey_def)
  show "srv_registry warm_server = NewRegistry readme_config"
    unfolding warm_server_def h
    by (simp add: dispatch_def se_fields f o Let_def cached_fields cache_Set_def e
        generateCacheKey_def)
qed

theorem unresolved_model_rejected_witness:
  "status_of (handleChatCompletion (scenario_server_env ok_env) no_default_server
      (Inr (scenario_request\<lparr>req_Model := ''unknown-model-xyz''\<rparr>))) = Some 400
   \<and> error_type_of (handleChatCompletion (scenario_server_env ok_env) no_default_server
      (Inr (scenario_request\<lparr>req_Model := ''unknown-model-xyz''\<rparr>))) = Some ''model not found''
   \<and> calls_of (handleChatCompletion (scenario_server_env ok_env) no_default_server
      (Inr (scenario_request\<lparr>req_Model := ''unknown-model-xyz''\<rparr>))) = []
   \<and> recorded_of (handleChatCompletion (scenario_server_env ok_env) no_default_server
      (Inr (scenario_request\<lparr>req_Model := ''unknown-model-xyz''\<rparr>))) = []
   \<and> default_provider (NewRegistry readme_config) = Some (OpenAI scenario_openai)
   \<and> GetForModel (NewRegistry readme_config) ''unknown-model-xyz'' = Inr (OpenAI scenario_openai)
   \<and> cache_consistent cached_server \<and> \<not> cache_hit (scenario_server_env ok_env) cached_server unknown_request
   \<and> calls_of (handleChatCompletion (scenario_server_env ok_env) cached_server (Inr unknown_request))
       = [''openai'']
   \<and> map pm_Model (recorded_of (handleChatCompletion (scenario_server_env ok_env) cached_server
        (Inr unknown_request))) = [''unknown-model-xyz'']
   \<and> cache_consistent warm_server \<and> cache_hit later_env warm_server unknown_request
   \<and> calls_of (handleChatCompletion later_env warm_server (Inr unknown_request)) = []
   \<and> status_of (handleChatCompletion later_env warm_server (Inr unknown_request)) = Some 200"
proof -
  have m: "mapped_provider (NewRegistry readme_config) ''unknown-model-xyz'' = None"
    by (simp add: readme_registry mapped_provider_def)
  have sp: "supporting_provider (NewRegistry readme_config) ''unknown-model-xyz'' = None"
    by (simp add: readme_registry supporting_provider_def OpenAI_SupportsModel_def
        Anthropic_SupportsModel_def shortNames_def scenario_openai_def scenario_anthropic_def
        NewOpenAIProvider_def NewAnthropicProvider_def)
  have d: "default_provider (NewRegistry readme_config) = Some (OpenAI scenario_openai)"
    by (simp add: readme_registry default_provider_def)
  have cc: "cache_consistent cached_server"
    by (simp add: cache_consistent_def cached_fields NewMemoryCache_inv)
  have nh: "\<not> cache_hit (scenario_server_env ok_env) cached_server unknown_request"
    by (simp add: cache_hit_def cached_fields NewMemoryCache_def)
  have cw: "cache_consistent warm_server"
    by (simp add: cache_consistent_def warm_fields cache_inv_def)
  have hw: "cache_hit later_env warm_server unknown_request"
    by (simp add: cache_hit_def cached_fields warm_fields later_env_def generateCacheKey_def
        scenario_server_env_def hour_def)
  have o: "cr_result (ChatCompletion ok_env (OpenAI scenario_openai) unknown_request) = Inr scenario_response"
    using openai_call_ok [of "''unknown-model-xyz''"] by (simp add: unknown_request_def)
  note t1 = unresolved_model_rejected [where s = no_default_server
      and req = "scenario_request\<lparr>req_Model := ''unknown-model-xyz''\<rparr>"
      and err = "NoProviderFound ''unknown-model-xyz''" and se = "scenario_server_env ok_env"
      and r = "NewRegistry readme_config" and model = "''unknown-model-xyz''"
      and prov = "OpenAI scenario_openai"]
  note t2 = unresolved_model_rejected [where s = cached_server and req = unknown_request
      and se = "scenario_server_env ok_env" and prov = "OpenAI scenario_openai",
      THEN conjunct2, THEN conjunct2, THEN conjunct2, THEN conjunct1]
  note t3 = unresolved_model_rejected [where s = warm_server and req = unknown_request
      and se = later_env and prov = "OpenAI scenario_openai",
      THEN conjunct2, THEN conjunct2, THEN conjunct2, THEN conjunct1]
  from t1 no_default_unknown m sp d
  have a: "status_of (handleChatCompletion (scenario_server_env ok_env) no_default_server
      (Inr (scenario_request\<lparr>req_Model := ''unknown-model-xyz''\<rparr>))) = Some 400
   \<and> error_type_of (handleChatCompletion (scenario_server_env ok_env) no_default_server
      (Inr (scenario_request\<lparr>req_Model := ''unknown-model-xyz''\<rparr>))) = Some ''model not found''
   \<and> calls_of (handleChatCompletion (scenario_server_env ok_env) no_default_server
      (Inr (scenario_request\<lparr>req_Model := ''unknown-model-xyz''\<rparr>))) = []
   \<and> recorded_of (handleChatCompletion (scenario_server_env ok_env) no_default_server
      (Inr (scenario_request\<lparr>req_Model := ''unknown-model-xyz''\<rparr>))) = []
   \<and> GetForModel (NewRegistry readme_config) ''unknown-model-xyz'' = Inr (OpenAI scenario_openai)"
    by (simp add: status_of_def error_type_of_def calls_of_def recorded_of_def writeError_def)
  from t2 cc nh unknown_get o
  have b: "calls_of (handleChatCompletion (scenario_server_env ok_env) cached_server (Inr unknown_request))
       = [''openai'']
     \<and> map pm_Model (recorded_of (handleChatCompletion (scenario_server_env ok_env) cached_server
        (Inr unknown_request))) = [''unknown-model-xyz'']"
    by (auto simp: cached_fields se_fields calls_of_def recorded_of_def scenario_names
        completion_metrics_def)
  from t3 cw hw unknown_get
  have c: "calls_of (handleChatCompletion later_env warm_server (Inr unknown_request)) = []
     \<and> status_of (handleChatCompletion later_env warm_server (Inr unknown_request)) = Some 200"
    by (auto simp: cached_fields warm_fields calls_of_def status_of_def)
  from a b c d cc nh cw hw show ?thesis by simp
qed

end
